theory Spec2Isabelle
  imports Main "HOL-Library.Char_ord" "HOL-Library.List_Lexorder" "HOL-Library.AList"
begin

section \<open>Fatal exits\<close>

text \<open>
  \<^verbatim>\<open>Checks::check_exit\<close>, \<^verbatim>\<open>Checks::exit_with_message\<close>, \<^verbatim>\<open>Checks::exit_fail\<close>,
  \<^verbatim>\<open>Checks::unreachable\<close> and \<^verbatim>\<open>value_or_exit\<close> end the process. A function that only
  computes and can reach one of them returns \<open>fatal + 'a\<close>, with \<open>Inl\<close> for the exit and
  the place it happened at; a function that changes files or the status journal returns
  an \<open>outcome\<close>, defined with the process state below.
\<close>

datatype fatal =
    Invalid_crt_linkage string
  | Invalid_library_linkage string
  | Unknown_policy_setting string string
  | Paragraph_error string "string list" "string list"
  | Invalid_build_info_file
  | Triplet_environment_failed
  | Unexpected_format string
  | Unknown_variable_name string
  | Source_directory_missing string
  | Cannot_create_destination string
  | Cannot_create_listfile_directory string
  | Substr_out_of_range string
  | Invalid_package_spec string
  | No_toolset
  | Unsupported_toolchain string
  | Invalid_architecture string
  | Null_pointer
  | Unsupported_vcvarsall_target string
  | No_cached_control_package
  | No_paragraph
  | Feature_packages_required
  | Exit_fail
  | Unreachable

section \<open>BUILD_INFO paragraphs (build.cpp, namespace vcpkg::Build)\<close>

datatype BuildPolicy =
    EMPTY_PACKAGE
  | DLLS_WITHOUT_LIBS
  | ONLY_RELEASE_CRT
  | EMPTY_INCLUDE_FOLDER
  | ALLOW_OBSOLETE_MSVCRT

text \<open>
  Modelled from the spec: \<^verbatim>\<open>G_ALL_POLICIES\<close> (declared in build.h, which is not among
  the sources). The spec's known policies are \<^verbatim>\<open>EMPTY_PACKAGE\<close>, \<^verbatim>\<open>DLLS_WITHOUT_LIBS\<close>,
  \<^verbatim>\<open>ONLY_RELEASE_CRT\<close>, \<^verbatim>\<open>EMPTY_INCLUDE_FOLDER\<close> and \<^verbatim>\<open>ALLOW_OBSOLETE_MSVCRT\<close>, the
  enumerators of the \<^verbatim>\<open>switch\<close> of \<^verbatim>\<open>to_string\<close> in the same order.
\<close>

definition G_ALL_POLICIES :: "BuildPolicy list" where
  "G_ALL_POLICIES =
     [EMPTY_PACKAGE, DLLS_WITHOUT_LIBS, ONLY_RELEASE_CRT, EMPTY_INCLUDE_FOLDER,
      ALLOW_OBSOLETE_MSVCRT]"

fun to_string :: "BuildPolicy \<Rightarrow> string" where
  "to_string EMPTY_PACKAGE = ''PolicyEmptyPackage''"
| "to_string DLLS_WITHOUT_LIBS = ''PolicyDLLsWithoutLIBs''"
| "to_string ONLY_RELEASE_CRT = ''PolicyOnlyReleaseCRT''"
| "to_string EMPTY_INCLUDE_FOLDER = ''PolicyEmptyIncludeFolder''"
| "to_string ALLOW_OBSOLETE_MSVCRT = ''PolicyAllowObsoleteMsvcrt''"

fun to_cmake_variable :: "BuildPolicy \<Rightarrow> string" where
  "to_cmake_variable EMPTY_PACKAGE = ''VCPKG_POLICY_EMPTY_PACKAGE''"
| "to_cmake_variable DLLS_WITHOUT_LIBS = ''VCPKG_POLICY_DLLS_WITHOUT_LIBS''"
| "to_cmake_variable ONLY_RELEASE_CRT = ''VCPKG_POLICY_ONLY_RELEASE_CRT''"
| "to_cmake_variable EMPTY_INCLUDE_FOLDER = ''VCPKG_POLICY_EMPTY_INCLUDE_FOLDER''"
| "to_cmake_variable ALLOW_OBSOLETE_MSVCRT = ''VCPKG_POLICY_ALLOW_OBSOLETE_MSVCRT''"

datatype LinkageType = DYNAMIC | STATIC

definition to_linkage_type :: "string \<Rightarrow> LinkageType option" where
  "to_linkage_type str =
     (if str = ''dynamic'' then Some DYNAMIC
      else if str = ''static'' then Some STATIC
      else None)"

definition CRT_LINKAGE :: string where
  "CRT_LINKAGE = ''CRTLinkage''"

definition LIBRARY_LINKAGE :: string where
  "LIBRARY_LINKAGE = ''LibraryLinkage''"

record BuildInfo =
  crt_linkage :: LinkageType
  library_linkage :: LinkageType
  version :: "string option"
  policies :: "BuildPolicy \<rightharpoonup> bool"

subsection \<open>The paragraph parser\<close>

text \<open>
  A paragraph is a \<^verbatim>\<open>std::unordered_map<std::string, std::string>\<close>, here an association
  list read through \<^const>\<open>map_of\<close>; erasing a key removes every pair that carries it.
\<close>

type_synonym fieldmap = "(string \<times> string) list"

record ParagraphParser =
  parser_fields :: fieldmap
  missing_fields :: "string list"

definition erase_field :: "string \<Rightarrow> fieldmap \<Rightarrow> fieldmap" where
  "erase_field fieldname pgh = filter (\<lambda>kv. fst kv \<noteq> fieldname) pgh"

text \<open>
  Modelled from the spec: \<^verbatim>\<open>Parse::ParagraphParser\<close> (parse.cpp is not among the
  sources). The spec gives \<^verbatim>\<open>required_field(p, name) -> string | MissingField\<close> and
  \<^verbatim>\<open>optional_field(p, name) -> string\<close> (empty string if absent), and has the parser
  validate the fields of a paragraph against its schema: a field that was read is
  consumed, a required field that is absent is recorded and leaves the caller's string as
  it was, and \<^verbatim>\<open>error_info\<close> reports the missing fields together with the fields that
  nobody consumed.
\<close>

definition required_field ::
  "string \<Rightarrow> string \<Rightarrow> ParagraphParser \<Rightarrow> string \<times> ParagraphParser" where
  "required_field fieldname out parser =
     (case map_of (parser_fields parser) fieldname of
        Some v \<Rightarrow> (v, parser\<lparr>parser_fields := erase_field fieldname (parser_fields parser)\<rparr>)
      | None \<Rightarrow> (out, parser\<lparr>missing_fields := missing_fields parser @ [fieldname]\<rparr>))"

definition optional_field :: "string \<Rightarrow> ParagraphParser \<Rightarrow> string \<times> ParagraphParser" where
  "optional_field fieldname parser =
     (case map_of (parser_fields parser) fieldname of
        Some v \<Rightarrow> (v, parser\<lparr>parser_fields := erase_field fieldname (parser_fields parser)\<rparr>)
      | None \<Rightarrow> ([], parser))"

definition error_info :: "string \<Rightarrow> ParagraphParser \<Rightarrow> fatal option" where
  "error_info name parser =
     (if parser_fields parser \<noteq> [] \<or> missing_fields parser \<noteq> []
      then Some (Paragraph_error name (map fst (parser_fields parser)) (missing_fields parser))
      else None)"

subsection \<open>inner_create_buildinfo\<close>

text \<open>\<^verbatim>\<open>std::map::emplace\<close> leaves an entry that is already there as it is.\<close>

definition emplace :: "('k \<rightharpoonup> 'v) \<Rightarrow> 'k \<Rightarrow> 'v \<Rightarrow> ('k \<rightharpoonup> 'v)" where
  "emplace m k v = (if m k = None then m(k \<mapsto> v) else m)"

text \<open>The loop over \<^verbatim>\<open>G_ALL_POLICIES\<close>; the first unknown setting ends the process.\<close>

fun read_policies ::
  "BuildPolicy list \<Rightarrow> ParagraphParser \<Rightarrow> (BuildPolicy \<rightharpoonup> bool) \<Rightarrow>
     fatal + ((BuildPolicy \<rightharpoonup> bool) \<times> ParagraphParser)" where
  "read_policies [] parser pols = Inr (pols, parser)"
| "read_policies (policy # rest) parser pols =
     (let (setting, parser') = optional_field (to_string policy) parser in
      if setting = [] then read_policies rest parser' pols
      else if setting = ''enabled'' then read_policies rest parser' (emplace pols policy True)
      else if setting = ''disabled'' then read_policies rest parser' (emplace pols policy False)
      else Inl (Unknown_policy_setting (to_string policy) setting))"

definition inner_create_buildinfo :: "fieldmap \<Rightarrow> fatal + BuildInfo" where
  "inner_create_buildinfo pgh =
     (let (crt_linkage_as_string, parser1) =
            required_field CRT_LINKAGE [] \<lparr>parser_fields = pgh, missing_fields = []\<rparr>
      in case to_linkage_type crt_linkage_as_string of
        None \<Rightarrow> Inl (Invalid_crt_linkage crt_linkage_as_string)
      | Some crt \<Rightarrow>
         (let (library_linkage_as_string, parser2) = required_field LIBRARY_LINKAGE [] parser1
          in case to_linkage_type library_linkage_as_string of
            None \<Rightarrow> Inl (Invalid_library_linkage library_linkage_as_string)
          | Some lib \<Rightarrow>
             (let (ver, parser3) = optional_field ''Version'' parser2
              in case read_policies G_ALL_POLICIES parser3 Map.empty of
                Inl e \<Rightarrow> Inl e
              | Inr (pols, parser4) \<Rightarrow>
                 (case error_info ''PostBuildInformation'' parser4 of
                    Some err \<Rightarrow> Inl err
                  | None \<Rightarrow>
                      Inr \<lparr>crt_linkage = crt, library_linkage = lib,
                           version = (if ver = [] then None else Some ver),
                           policies = pols\<rparr>))))"

text \<open>
  \<^verbatim>\<open>read_build_info\<close>: \<^verbatim>\<open>Paragraphs::get_single_paragraph\<close> is not among the sources;
  its result for the file is the argument, \<open>None\<close> when the file does not hold exactly
  one well-formed paragraph.
\<close>

definition read_build_info :: "fieldmap option \<Rightarrow> fatal + BuildInfo" where
  "read_build_info pghs =
     (case pghs of
        None \<Rightarrow> Inl Invalid_build_info_file
      | Some pgh \<Rightarrow> inner_create_buildinfo pgh)"

section \<open>The triplet environment (PreBuildInfo::from_triplet_file)\<close>

record PreBuildInfo =
  target_architecture :: string
  cmake_system_name :: string
  cmake_system_version :: string
  platform_toolset :: "string option"
  visual_studio_path :: "string option"

text \<open>A default-constructed \<^verbatim>\<open>PreBuildInfo\<close>: empty strings and empty optionals.\<close>

definition default_pre_build_info :: PreBuildInfo where
  "default_pre_build_info =
     \<lparr>target_architecture = [], cmake_system_name = [], cmake_system_version = [],
      platform_toolset = None, visual_studio_path = None\<rparr>"

definition FLAG_GUID :: string where
  "FLAG_GUID = ''c35112b6-d1ba-415b-aa5d-81de856ef8eb''"

text \<open>
  \<^verbatim>\<open>Strings::split\<close> is not among the sources and the spec does not describe it; it is
  the parameter \<open>split\<close> (string, then delimiter) of every function that calls it.
\<close>

type_synonym splitter = "string \<Rightarrow> string \<Rightarrow> string list"

text \<open>The body of the \<^verbatim>\<open>for (; cur != e; ++cur)\<close> loop, from \<open>cur\<close> to the end.\<close>

fun parse_triplet_lines :: "splitter \<Rightarrow> string list \<Rightarrow> PreBuildInfo \<Rightarrow> fatal + PreBuildInfo" where
  "parse_triplet_lines split [] pre_build_info = Inr pre_build_info"
| "parse_triplet_lines split (line # rest) pre_build_info =
     (let s = split line ''='' in
      if \<not> (length s = 1 \<or> length s = 2) then Inl (Unexpected_format line)
      else
        let variable_with_no_value = (length s = 1);
            variable_name = s ! 0;
            variable_value = (if variable_with_no_value then [] else s ! 1)
        in
          if variable_name = ''VCPKG_TARGET_ARCHITECTURE''
            then parse_triplet_lines split rest
                   (pre_build_info\<lparr>target_architecture := variable_value\<rparr>)
          else if variable_name = ''VCPKG_CMAKE_SYSTEM_NAME''
            then parse_triplet_lines split rest
                   (pre_build_info\<lparr>cmake_system_name := variable_value\<rparr>)
          else if variable_name = ''VCPKG_CMAKE_SYSTEM_VERSION''
            then parse_triplet_lines split rest
                   (pre_build_info\<lparr>cmake_system_version := variable_value\<rparr>)
          else if variable_name = ''VCPKG_PLATFORM_TOOLSET''
            then parse_triplet_lines split rest
                   (pre_build_info\<lparr>platform_toolset :=
                      (if variable_value = [] then None else Some variable_value)\<rparr>)
          else if variable_name = ''VCPKG_VISUAL_STUDIO_PATH''
            then parse_triplet_lines split rest
                   (pre_build_info\<lparr>visual_studio_path :=
                      (if variable_value = [] then None else Some variable_value)\<rparr>)
          else Inl (Unknown_variable_name line))"

text \<open>
  \<open>ec_data\<close> is what \<^verbatim>\<open>System::cmd_execute_and_capture_output\<close> returned for the
  \<^verbatim>\<open>get_triplet_environment.cmake\<close> command: the exit code and the captured output.
  \<^verbatim>\<open>std::find\<close> stops at the first line equal to the GUID, or at the end.
\<close>

definition from_triplet_file :: "splitter \<Rightarrow> int \<times> string \<Rightarrow> fatal + PreBuildInfo" where
  "from_triplet_file split ec_data =
     (if fst ec_data \<noteq> 0 then Inl Triplet_environment_failed
      else
        let lines = split (snd ec_data) [CHR 0x0A];
            found = dropWhile (\<lambda>l. l \<noteq> FLAG_GUID) lines;
            cur = (if found \<noteq> [] then tl found else found)
        in parse_triplet_lines split cur default_pre_build_info)"

text \<open>
  A line the loop accepts: one or two pieces around \<^verbatim>\<open>=\<close>, the first of them one of the
  five variable names.
\<close>

definition recognized_line :: "splitter \<Rightarrow> string \<Rightarrow> bool" where
  "recognized_line split line =
     (let s = split line ''='' in
      (length s = 1 \<or> length s = 2) \<and>
      s ! 0 \<in> set [''VCPKG_TARGET_ARCHITECTURE'', ''VCPKG_CMAKE_SYSTEM_NAME'',
                   ''VCPKG_CMAKE_SYSTEM_VERSION'', ''VCPKG_PLATFORM_TOOLSET'',
                   ''VCPKG_VISUAL_STUDIO_PATH''])"

text \<open>
  A splitter for the examples: the pieces between the occurrences of a one-character
  delimiter, without empty pieces.
\<close>

fun split_pieces :: "char \<Rightarrow> string \<Rightarrow> string \<Rightarrow> string list" where
  "split_pieces d acc [] = (if acc = [] then [] else [acc])"
| "split_pieces d acc (c # cs) =
     (if c = d then (if acc = [] then [] else [acc]) @ split_pieces d [] cs
      else split_pieces d (acc @ [c]) cs)"

definition example_split :: splitter where
  "example_split s delimiter =
     (case delimiter of [d] \<Rightarrow> split_pieces d [] s | _ \<Rightarrow> [s])"

subsection \<open>Vocabulary for statements about paragraphs\<close>

text \<open>The value a field is read with: the empty string when the field is absent.\<close>

definition field_value :: "fieldmap \<Rightarrow> string \<Rightarrow> string" where
  "field_value pgh k = (case map_of pgh k of None \<Rightarrow> [] | Some v \<Rightarrow> v)"

definition policy_setting :: "string \<Rightarrow> bool option" where
  "policy_setting v =
     (if v = ''enabled'' then Some True else if v = ''disabled'' then Some False else None)"

text \<open>The field names \<^verbatim>\<open>inner_create_buildinfo\<close> asks the parser for.\<close>

definition known_fields :: "string set" where
  "known_fields = {CRT_LINKAGE, LIBRARY_LINKAGE, ''Version''} \<union> to_string ` set G_ALL_POLICIES"

definition emplace_setting ::
  "(BuildPolicy \<rightharpoonup> bool) \<Rightarrow> BuildPolicy \<Rightarrow> string \<Rightarrow> (BuildPolicy \<rightharpoonup> bool)" where
  "emplace_setting pols policy v =
     (if v = ''enabled'' then emplace pols policy True
      else if v = ''disabled'' then emplace pols policy False
      else pols)"

definition example_output :: string where
  "example_output =
     ''-- not a pair = at = all'' @ [CHR 0x0A] @ FLAG_GUID @ [CHR 0x0A] @
     ''VCPKG_TARGET_ARCHITECTURE=x64'' @ [CHR 0x0A] @ ''VCPKG_PLATFORM_TOOLSET=v141''"

definition example_build_info :: fieldmap where
  "example_build_info =
     [(''CRTLinkage'', ''dynamic''), (''LibraryLinkage'', ''static''),
      (''PolicyEmptyPackage'', ''enabled'')]"


section \<open>Data model\<close>

text \<open>
  A triplet is its canonical name (\<^verbatim>\<open>canonical_name()\<close> and \<^verbatim>\<open>to_string()\<close> both return
  it). The headers of \<^verbatim>\<open>PackageSpec\<close>, \<^verbatim>\<open>StatusParagraph\<close> and \<^verbatim>\<open>VcpkgPaths\<close> are not
  among the sources; the records hold the members that build.cpp, binaryparagraph.h and
  VcpkgPaths.cpp use. The member \<^verbatim>\<open>version\<close> of \<^verbatim>\<open>BinaryParagraph\<close> is \<open>binary_version\<close>
  here, and \<^verbatim>\<open>BuildResult::FILE_CONFLICTS\<close> is \<open>BuildResult_FILE_CONFLICTS\<close>, since
  \<^verbatim>\<open>BuildInfo\<close> and \<^verbatim>\<open>InstallResult\<close> have members of these names.
\<close>

type_synonym Triplet = string

type_synonym path = string

record PackageSpec =
  m_name :: string
  m_triplet :: Triplet

record BinaryParagraph =
  spec :: PackageSpec
  binary_version :: string
  description :: string
  maintainer :: string
  feature :: string
  default_features :: "string list"
  depends :: "string list"

record BinaryControlFile =
  core_paragraph :: BinaryParagraph
  features :: "BinaryParagraph list"

datatype Want = INSTALL | HOLD | PURGE

datatype InstallState = NOT_INSTALLED | HALF_INSTALLED | INSTALLED

record StatusParagraph =
  package :: BinaryParagraph
  want :: Want
  state :: InstallState

record VcpkgPaths =
  packages :: path
  installed :: path
  vcpkg_dir_info :: path
  ports :: path
  triplets :: path
  scripts :: path
  ports_cmake :: path

text \<open>\<^verbatim>\<open>operator/\<close> of \<^verbatim>\<open>fs::path\<close>, on generic strings, for a relative right-hand side.\<close>

definition path_append :: "path \<Rightarrow> path \<Rightarrow> path" where
  "path_append a b = a @ ''/'' @ b"

text \<open>
  Modelled from the spec: \<^verbatim>\<open>PackageSpec::dir\<close> and \<^verbatim>\<open>BinaryParagraph::fullstem\<close>
  (declared in the headers, defined in files that are not among the sources). The spec's
  layout has the sandbox at \<^verbatim>\<open>packages/<name>_<triplet>/\<close> and the listfile at
  \<^verbatim>\<open>installed/vcpkg/info/<name>_<version>_<triplet>.list\<close>.
\<close>

definition dir :: "PackageSpec \<Rightarrow> string" where
  "dir s = m_name s @ ''_'' @ m_triplet s"

definition fullstem :: "BinaryParagraph \<Rightarrow> string" where
  "fullstem pgh =
     m_name (spec pgh) @ ''_'' @ binary_version pgh @ ''_'' @ m_triplet (spec pgh)"

definition package_dir :: "VcpkgPaths \<Rightarrow> PackageSpec \<Rightarrow> path" where
  "package_dir paths s = path_append (packages paths) (dir s)"

definition build_info_file_path :: "VcpkgPaths \<Rightarrow> PackageSpec \<Rightarrow> path" where
  "build_info_file_path paths s = path_append (package_dir paths s) ''BUILD_INFO''"

definition listfile_path :: "VcpkgPaths \<Rightarrow> BinaryParagraph \<Rightarrow> path" where
  "listfile_path paths pgh = path_append (vcpkg_dir_info paths) (fullstem pgh @ ''.list'')"

section \<open>The status database\<close>

type_synonym StatusParagraphs = "StatusParagraph list"

text \<open>
  Modelled from the spec: \<^verbatim>\<open>StatusParagraphs::find\<close>, \<^verbatim>\<open>insert\<close> and \<^verbatim>\<open>find_installed\<close>
  (statusparagraphs.cpp is not among the sources). The tuple (name, triplet, feature) is
  the primary key, a later record for a key supersedes the earlier one, and
  \<^verbatim>\<open>find_installed\<close> answers with the record of the key only when it is wanted and
  installed.
\<close>

definition has_key :: "string \<Rightarrow> Triplet \<Rightarrow> string \<Rightarrow> StatusParagraph \<Rightarrow> bool" where
  "has_key name triplet feat pgh =
     (m_name (spec (package pgh)) = name \<and> m_triplet (spec (package pgh)) = triplet \<and>
      feature (package pgh) = feat)"

definition same_key :: "StatusParagraph \<Rightarrow> StatusParagraph \<Rightarrow> bool" where
  "same_key a b =
     has_key (m_name (spec (package a))) (m_triplet (spec (package a))) (feature (package a)) b"

definition find_status ::
  "StatusParagraphs \<Rightarrow> string \<Rightarrow> Triplet \<Rightarrow> string \<Rightarrow> StatusParagraph option" where
  "find_status db name triplet feat = find (has_key name triplet feat) db"

fun insert_status :: "StatusParagraph \<Rightarrow> StatusParagraphs \<Rightarrow> StatusParagraphs" where
  "insert_status pgh [] = [pgh]"
| "insert_status pgh (p # ps) =
     (if same_key pgh p then pgh # ps else p # insert_status pgh ps)"

definition find_installed ::
  "StatusParagraphs \<Rightarrow> string \<Rightarrow> Triplet \<Rightarrow> StatusParagraph option" where
  "find_installed db name triplet =
     (case find_status db name triplet [] of
        Some pgh \<Rightarrow> if want pgh = INSTALL \<and> state pgh = INSTALLED then Some pgh else None
      | None \<Rightarrow> None)"

section \<open>The file system and the process state\<close>

text \<open>
  \<^verbatim>\<open>Files::Filesystem\<close> is an interface whose implementation is not among the sources.
  Here a file system is a finite table from generic path strings to nodes, in the order in
  which a directory walk meets them. The operations below are the ones build.cpp calls,
  with the meaning of their \<^verbatim>\<open>std::filesystem\<close> namesakes; \<open>True\<close> in a result stands for
  an error code that was set.
\<close>

datatype node = Dir | File string | Special | Unknown

datatype file_type = regular | directory | other | none

type_synonym filesystem = "(path \<times> node) list"

fun type_of_node :: "node \<Rightarrow> file_type" where
  "type_of_node Dir = directory"
| "type_of_node (File _) = regular"
| "type_of_node Special = other"
| "type_of_node Unknown = none"

definition fs_exists :: "filesystem \<Rightarrow> path \<Rightarrow> bool" where
  "fs_exists fs p = (map_of fs p \<noteq> None)"

definition fs_status :: "filesystem \<Rightarrow> path \<Rightarrow> file_type option" where
  "fs_status fs p = map_option type_of_node (map_of fs p)"

definition is_regular_file :: "file_type \<Rightarrow> bool" where
  "is_regular_file st = (st = regular)"

definition is_directory :: "file_type \<Rightarrow> bool" where
  "is_directory st = (st = directory)"

definition status_known :: "file_type \<Rightarrow> bool" where
  "status_known st = (st \<noteq> none)"

definition filename :: "path \<Rightarrow> string" where
  "filename p = rev (takeWhile (\<lambda>c. c \<noteq> CHR ''/'') (rev p))"

definition parent_path :: "path \<Rightarrow> path" where
  "parent_path p = rev (drop 1 (dropWhile (\<lambda>c. c \<noteq> CHR ''/'') (rev p)))"

text \<open>The path itself after all the directories above it, outermost first.\<close>

definition path_ancestors :: "path \<Rightarrow> path list" where
  "path_ancestors p =
     filter (\<lambda>q. q \<noteq> []) (map (\<lambda>i. take i p) (filter (\<lambda>i. p ! i = CHR ''/'') [0..<length p]))
     @ [p]"

definition under :: "path \<Rightarrow> path \<Rightarrow> bool" where
  "under d p = (length d + 1 < length p \<and> take (length d + 1) p = d @ ''/'')"

definition get_files_recursive :: "filesystem \<Rightarrow> path \<Rightarrow> path list" where
  "get_files_recursive fs d = filter (under d) (map fst fs)"

fun create_directory_chain :: "filesystem \<Rightarrow> path list \<Rightarrow> bool \<times> filesystem" where
  "create_directory_chain fs [] = (False, fs)"
| "create_directory_chain fs (d # ds) =
     (case map_of fs d of
        None \<Rightarrow> create_directory_chain (AList.update d Dir fs) ds
      | Some Dir \<Rightarrow> create_directory_chain fs ds
      | Some _ \<Rightarrow> (True, fs))"

definition create_directories :: "filesystem \<Rightarrow> path \<Rightarrow> bool \<times> filesystem" where
  "create_directories fs p = create_directory_chain fs (path_ancestors p)"

definition parent_is_directory :: "filesystem \<Rightarrow> path \<Rightarrow> bool" where
  "parent_is_directory fs p = (parent_path p = [] \<or> map_of fs (parent_path p) = Some Dir)"

definition create_directory :: "filesystem \<Rightarrow> path \<Rightarrow> bool \<times> filesystem" where
  "create_directory fs p =
     (case map_of fs p of
        Some Dir \<Rightarrow> (False, fs)
      | Some _ \<Rightarrow> (True, fs)
      | None \<Rightarrow> if parent_is_directory fs p then (False, AList.update p Dir fs) else (True, fs))"

text \<open>\<^verbatim>\<open>copy_file\<close> with \<^verbatim>\<open>fs::copy_options::overwrite_existing\<close>.\<close>

definition copy_file_overwrite_existing :: "filesystem \<Rightarrow> path \<Rightarrow> path \<Rightarrow> bool \<times> filesystem" where
  "copy_file_overwrite_existing fs from to =
     (case map_of fs from of
        Some (File contents) \<Rightarrow>
          (case map_of fs to of
             Some (File _) \<Rightarrow> (False, AList.update to (File contents) fs)
           | Some _ \<Rightarrow> (True, fs)
           | None \<Rightarrow>
               if parent_is_directory fs to then (False, AList.update to (File contents) fs)
               else (True, fs))
      | _ \<Rightarrow> (True, fs))"

definition lines_contents :: "string list \<Rightarrow> string" where
  "lines_contents ls = concat (map (\<lambda>l. l @ [CHR 0x0A]) ls)"

definition write_lines :: "filesystem \<Rightarrow> path \<Rightarrow> string list \<Rightarrow> filesystem" where
  "write_lines fs p ls = AList.update p (File (lines_contents ls)) fs"

definition write_contents :: "filesystem \<Rightarrow> path \<Rightarrow> string \<Rightarrow> filesystem" where
  "write_contents fs p s = AList.update p (File s) fs"

text \<open>
  What the process leaves behind: the file system, the journal of status records under
  \<^verbatim>\<open>installed/vcpkg/updates\<close>, the error and warning lines it printed, and the command
  lines it gave to \<^verbatim>\<open>System::cmd_execute_clean\<close> and
  \<^verbatim>\<open>System::cmd_execute_and_capture_output\<close>. Progress lines (\<^verbatim>\<open>System::println\<close>
  without a colour) and the metrics are not recorded.
\<close>

datatype BuildResult =
    NULLVALUE
  | SUCCEEDED
  | BUILD_FAILED
  | POST_BUILD_CHECKS_FAILED
  | BuildResult_FILE_CONFLICTS
  | CASCADED_DUE_TO_MISSING_DEPENDENCIES

datatype message =
    File_conflicts path PackageSpec "string list"
  | Build_error BuildResult PackageSpec
  | Failed path
  | Failed_unknown_status path
  | Failed_file_type path
  | Already_present path

record world =
  disk :: filesystem
  updates :: "StatusParagraph list"
  console :: "message list"
  executed :: "string list"

text \<open>
  A function that changes the world either returns, or ends the process at a fatal exit;
  both leave a world behind.
\<close>

datatype 'a outcome = Exit fatal world | Return 'a world

text \<open>
  Modelled from the spec: \<^verbatim>\<open>write_update\<close> (vcpkglib.cpp is not among the sources). Any
  mutation of the status database appends a new update file to the journal.
\<close>

definition write_update :: "StatusParagraph \<Rightarrow> world \<Rightarrow> world" where
  "write_update pgh w = w\<lparr>updates := updates w @ [pgh]\<rparr>"

section \<open>The installer (namespace vcpkg::Install)\<close>

record InstallDir =
  m_destination :: path
  m_destination_subdirectory :: string
  m_listfile :: path

definition from_destination_root :: "path \<Rightarrow> string \<Rightarrow> path \<Rightarrow> InstallDir" where
  "from_destination_root destination_root destination_subdirectory listfile =
     \<lparr>m_destination = path_append destination_root destination_subdirectory,
      m_destination_subdirectory = destination_subdirectory,
      m_listfile = listfile\<rparr>"

text \<open>
  \<^verbatim>\<open>Strings::case_insensitive_ascii_equals\<close> is not among the sources; it compares the
  two strings after folding the letters A to Z to lower case.
\<close>

definition ascii_tolower :: "char \<Rightarrow> char" where
  "ascii_tolower c =
     (case map_of (zip ''ABCDEFGHIJKLMNOPQRSTUVWXYZ'' ''abcdefghijklmnopqrstuvwxyz'') c of
        Some l \<Rightarrow> l
      | None \<Rightarrow> c)"

definition case_insensitive_ascii_equals :: "string \<Rightarrow> string \<Rightarrow> bool" where
  "case_insensitive_ascii_equals l r = (map ascii_tolower l = map ascii_tolower r)"

definition is_control_file_name :: "string \<Rightarrow> bool" where
  "is_control_file_name name =
     (case_insensitive_ascii_equals name ''CONTROL'' \<or>
      case_insensitive_ascii_equals name ''BUILD_INFO'')"

text \<open>
  One round of the \<^verbatim>\<open>for (auto&& file : files)\<close> loop of
  \<^verbatim>\<open>install_files_and_write_listfile\<close>, on the lines collected so far and the world.
  \<^verbatim>\<open>substr\<close> throws when its position lies beyond the end of the string.
\<close>

definition install_file ::
  "path \<Rightarrow> path \<Rightarrow> string \<Rightarrow> path \<Rightarrow> string list \<Rightarrow> world \<Rightarrow> (string list) outcome" where
  "install_file source_dir destination destination_subdirectory file output w =
     (case fs_status (disk w) file of
        None \<Rightarrow> Return output (w\<lparr>console := console w @ [Failed file]\<rparr>)
      | Some status \<Rightarrow>
          if is_regular_file status \<and> is_control_file_name (filename file) then Return output w
          else if length file < length source_dir + 1 then Exit (Substr_out_of_range file) w
          else
            let suffix = drop (length source_dir + 1) file;
                target = path_append destination suffix
            in
              if is_directory status then
                (case create_directory (disk w) target of
                   (ec, fs') \<Rightarrow>
                     Return (output @ [destination_subdirectory @ ''/'' @ suffix @ ''/''])
                       (w\<lparr>disk := fs',
                          console := console w @ (if ec then [Failed target] else [])\<rparr>))
              else if is_regular_file status then
                (case copy_file_overwrite_existing (disk w) file target of
                   (ec, fs') \<Rightarrow>
                     Return (output @ [destination_subdirectory @ ''/'' @ suffix])
                       (w\<lparr>disk := fs',
                          console := console w
                            @ (if fs_exists (disk w) target then [Already_present target] else [])
                            @ (if ec then [Failed target] else [])\<rparr>))
              else if \<not> status_known status then
                Return output (w\<lparr>console := console w @ [Failed_unknown_status file]\<rparr>)
              else Return output (w\<lparr>console := console w @ [Failed_file_type file]\<rparr>))"

fun install_files ::
  "path \<Rightarrow> path \<Rightarrow> string \<Rightarrow> path list \<Rightarrow> string list \<Rightarrow> world \<Rightarrow> (string list) outcome" where
  "install_files source_dir destination destination_subdirectory [] output w = Return output w"
| "install_files source_dir destination destination_subdirectory (file # files) output w =
     (case install_file source_dir destination destination_subdirectory file output w of
        Exit e w' \<Rightarrow> Exit e w'
      | Return output' w' \<Rightarrow>
          install_files source_dir destination destination_subdirectory files output' w')"

text \<open>
  The start of \<^verbatim>\<open>install_files_and_write_listfile\<close>: the source directory has to exist,
  and the destination and the directory of the listfile are created.
\<close>

definition create_install_directories :: "path \<Rightarrow> InstallDir \<Rightarrow> world \<Rightarrow> unit outcome" where
  "create_install_directories source_dir destination_dir w =
     (let destination = m_destination destination_dir;
          listfile = m_listfile destination_dir
      in
        if \<not> fs_exists (disk w) source_dir then Exit (Source_directory_missing source_dir) w
        else
          case create_directories (disk w) destination of
            (True, fs1) \<Rightarrow> Exit (Cannot_create_destination destination) (w\<lparr>disk := fs1\<rparr>)
          | (False, fs1) \<Rightarrow>
             (case create_directories fs1 (parent_path listfile) of
                (True, fs2) \<Rightarrow>
                  Exit (Cannot_create_listfile_directory listfile) (w\<lparr>disk := fs2\<rparr>)
              | (False, fs2) \<Rightarrow> Return () (w\<lparr>disk := fs2\<rparr>)))"

definition install_files_and_write_listfile :: "path \<Rightarrow> InstallDir \<Rightarrow> world \<Rightarrow> unit outcome" where
  "install_files_and_write_listfile source_dir destination_dir w =
     (case create_install_directories source_dir destination_dir w of
        Exit e w0 \<Rightarrow> Exit e w0
      | Return _ w0 \<Rightarrow>
         (case install_files source_dir (m_destination destination_dir)
                 (m_destination_subdirectory destination_dir)
                 (get_files_recursive (disk w0) source_dir)
                 [m_destination_subdirectory destination_dir @ ''/''] w0 of
            Exit e w' \<Rightarrow> Exit e w'
          | Return output w' \<Rightarrow>
              Return ()
                (w'\<lparr>disk := write_lines (disk w') (m_listfile destination_dir) (sort output)\<rparr>)))"

definition remove_first_n_chars :: "string list \<Rightarrow> nat \<Rightarrow> string list" where
  "remove_first_n_chars strings n = map (drop n) strings"

text \<open>A \<^verbatim>\<open>StatusParagraphAndAssociatedFiles\<close> is a pair of the paragraph and its files.\<close>

definition extract_files_in_triplet ::
  "(StatusParagraph \<times> string list) list \<Rightarrow> Triplet \<Rightarrow> string list" where
  "extract_files_in_triplet pgh_and_files triplet =
     sort (concat (map snd
       (filter (\<lambda>t. m_triplet (spec (package (fst t))) = triplet) pgh_and_files)))"

text \<open>
  \<^verbatim>\<open>SortedVector\<close> (sortedvector.h is not among the sources) is a vector that its
  constructor sorts.
\<close>

definition SortedVector :: "string list \<Rightarrow> string list" where
  "SortedVector v = sort v"

definition build_list_of_package_files :: "filesystem \<Rightarrow> path \<Rightarrow> string list" where
  "build_list_of_package_files fs package_directory =
     (let package_file_paths = get_files_recursive fs package_directory;
          package_remove_char_count = length package_directory + 1
      in SortedVector (map (drop package_remove_char_count) package_file_paths))"

definition build_list_of_installed_files ::
  "(StatusParagraph \<times> string list) list \<Rightarrow> Triplet \<Rightarrow> string list" where
  "build_list_of_installed_files pgh_and_files triplet =
     (let installed_files = extract_files_in_triplet pgh_and_files triplet;
          installed_remove_char_count = length triplet + 1
      in SortedVector (remove_first_n_chars installed_files installed_remove_char_count))"

text \<open>\<^verbatim>\<open>std::set_intersection\<close> on two sorted ranges.\<close>

fun set_intersection :: "string list \<Rightarrow> string list \<Rightarrow> string list" where
  "set_intersection [] ys = []"
| "set_intersection (x # xs) [] = []"
| "set_intersection (x # xs) (y # ys) =
     (if x < y then set_intersection xs (y # ys)
      else if y < x then set_intersection (x # xs) ys
      else x # set_intersection xs ys)"

datatype InstallResult = SUCCESS | FILE_CONFLICTS

text \<open>
  \<^verbatim>\<open>get_installed_files\<close> (vcpkglib.cpp) is not among the sources; it is the parameter
  \<open>get_installed_files\<close>, from the file system and the status database to the installed
  paragraphs with the lines of their listfiles.
\<close>

type_synonym installed_files_reader =
  "filesystem \<Rightarrow> StatusParagraphs \<Rightarrow> (StatusParagraph \<times> string list) list"

definition installed_record :: "BinaryParagraph \<Rightarrow> StatusParagraph" where
  "installed_record pgh = \<lparr>package = pgh, want = INSTALL, state = INSTALLED\<rparr>"

definition half_installed :: "BinaryParagraph \<Rightarrow> StatusParagraph" where
  "half_installed pgh = \<lparr>package = pgh, want = INSTALL, state = HALF_INSTALLED\<rparr>"

text \<open>
  The two loops over the feature paragraphs: each record is journaled and then inserted
  into the database in memory.
\<close>

fun record_paragraphs ::
  "StatusParagraph list \<Rightarrow> StatusParagraphs \<Rightarrow> world \<Rightarrow> StatusParagraphs \<times> world" where
  "record_paragraphs [] status_db w = (status_db, w)"
| "record_paragraphs (pgh # rest) status_db w =
     record_paragraphs rest (insert_status pgh status_db) (write_update pgh w)"

text \<open>Lines 744 to 764: the \<^verbatim>\<open>HALF_INSTALLED\<close> records of the core and of the features.\<close>

definition write_half_installed ::
  "BinaryControlFile \<Rightarrow> StatusParagraphs \<Rightarrow> world \<Rightarrow> StatusParagraphs \<times> world" where
  "write_half_installed bcf status_db w =
     record_paragraphs (map half_installed (core_paragraph bcf # features bcf)) status_db w"

text \<open>Lines 771 to 780: the same records again, with state \<^verbatim>\<open>INSTALLED\<close>.\<close>

definition write_installed ::
  "BinaryControlFile \<Rightarrow> StatusParagraphs \<Rightarrow> world \<Rightarrow> StatusParagraphs \<times> world" where
  "write_installed bcf status_db w =
     record_paragraphs (map installed_record (core_paragraph bcf # features bcf)) status_db w"

definition install_package ::
  "installed_files_reader \<Rightarrow> VcpkgPaths \<Rightarrow> BinaryControlFile \<Rightarrow> StatusParagraphs \<Rightarrow> world \<Rightarrow>
     (InstallResult \<times> StatusParagraphs) outcome" where
  "install_package get_installed_files paths bcf status_db w =
     (let package_directory = package_dir paths (spec (core_paragraph bcf));
          triplet = m_triplet (spec (core_paragraph bcf));
          pgh_and_files = get_installed_files (disk w) status_db;
          package_files = build_list_of_package_files (disk w) package_directory;
          installed_files = build_list_of_installed_files pgh_and_files triplet;
          intersection = set_intersection package_files installed_files
      in
        if intersection \<noteq> [] then
          Return (FILE_CONFLICTS, status_db)
            (w\<lparr>console := console w
                 @ [File_conflicts (path_append (installed paths) triplet)
                      (spec (core_paragraph bcf)) intersection]\<rparr>)
        else
          case write_half_installed bcf status_db w of
            (status_db1, w1) \<Rightarrow>
              let install_dir = from_destination_root (installed paths) triplet
                                  (listfile_path paths (core_paragraph bcf))
              in case install_files_and_write_listfile package_directory install_dir w1 of
                   Exit e w2 \<Rightarrow> Exit e w2
                 | Return _ w2 \<Rightarrow>
                     (case write_installed bcf status_db1 w2 of
                        (status_db2, w3) \<Rightarrow> Return (SUCCESS, status_db2) w3))"


subsection \<open>Vocabulary and examples for the installer\<close>



fun world_of :: "'a outcome \<Rightarrow> world" where
  "world_of (Exit e w) = w"
| "world_of (Return x w) = w"

text \<open>
  The world that \<^verbatim>\<open>install_files_and_write_listfile\<close> leaves when the process is
  interrupted after \<open>k\<close> rounds of its loop (or when it has ended by itself before).
\<close>

definition copy_interrupted :: "path \<Rightarrow> InstallDir \<Rightarrow> nat \<Rightarrow> world \<Rightarrow> world" where
  "copy_interrupted source_dir destination_dir k w =
     (case create_install_directories source_dir destination_dir w of
        Exit e w0 \<Rightarrow> w0
      | Return _ w0 \<Rightarrow>
          world_of (install_files source_dir (m_destination destination_dir)
                      (m_destination_subdirectory destination_dir)
                      (take k (get_files_recursive (disk w0) source_dir))
                      [m_destination_subdirectory destination_dir @ ''/''] w0))"


text \<open>
  A reader for the examples: the installed records of the database, each with the lines
  of its listfile.
\<close>

definition listfile_reader :: "VcpkgPaths \<Rightarrow> installed_files_reader" where
  "listfile_reader paths fs status_db =
     map (\<lambda>pgh. (pgh, case map_of fs (listfile_path paths (package pgh)) of
                         Some (File contents) \<Rightarrow> split_pieces (CHR 0x0A) [] contents
                       | _ \<Rightarrow> []))
       (filter (\<lambda>pgh. want pgh = INSTALL \<and> state pgh = INSTALLED) status_db)"

definition example_paths :: VcpkgPaths where
  "example_paths =
     \<lparr>packages = ''r/packages'', installed = ''r/installed'',
      vcpkg_dir_info = ''r/installed/vcpkg/info'', ports = ''r/ports'',
      triplets = ''r/triplets'', scripts = ''r/scripts'',
      ports_cmake = ''r/scripts/ports.cmake''\<rparr>"

definition example_paragraph :: "string \<Rightarrow> BinaryParagraph" where
  "example_paragraph name =
     \<lparr>spec = \<lparr>m_name = name, m_triplet = ''x64''\<rparr>, binary_version = ''1'',
      description = [], maintainer = [], feature = [], default_features = [], depends = []\<rparr>"

definition example_bcf :: "string \<Rightarrow> BinaryControlFile" where
  "example_bcf name = \<lparr>core_paragraph = example_paragraph name, features = []\<rparr>"

text \<open>
  The sandbox of \<open>q\<close> holds \<^verbatim>\<open>bin/tool.exe\<close>, and the prefix holds a file of that name
  already, listed by the installed package \<open>p\<close>.
\<close>

definition example_disk :: filesystem where
  "example_disk =
     [(''r'', Dir), (''r/packages'', Dir), (''r/packages/q_x64'', Dir),
      (''r/packages/q_x64/CONTROL'', File ''Package: q''),
      (''r/packages/q_x64/BUILD_INFO'', File ''CRTLinkage: dynamic''),
      (''r/packages/q_x64/bin'', Dir),
      (''r/packages/q_x64/bin/tool.exe'', File ''tool of q''),
      (''r/installed'', Dir), (''r/installed/x64'', Dir), (''r/installed/x64/bin'', Dir),
      (''r/installed/x64/bin/tool.exe'', File ''tool of p''),
      (''r/installed/vcpkg'', Dir), (''r/installed/vcpkg/info'', Dir),
      (''r/installed/vcpkg/info/p_1_x64.list'',
       File (lines_contents [''x64/'', ''x64/bin/'', ''x64/bin/tool.exe'']))]"

definition example_world :: world where
  "example_world = \<lparr>disk = example_disk, updates = [], console = [], executed = []\<rparr>"

definition example_status_db :: StatusParagraphs where
  "example_status_db = [installed_record (example_paragraph ''p'')]"

definition example_feature_bcf :: BinaryControlFile where
  "example_feature_bcf =
     \<lparr>core_paragraph = example_paragraph ''q'',
      features = [(example_paragraph ''q'')\<lparr>feature := ''tools''\<rparr>]\<rparr>"


section \<open>Ports and build configurations\<close>

text \<open>
  The headers of \<^verbatim>\<open>SourceParagraph\<close>, \<^verbatim>\<open>FeatureParagraph\<close>, \<^verbatim>\<open>SourceControlFile\<close>,
  \<^verbatim>\<open>BuildPackageConfig\<close>, \<^verbatim>\<open>Toolset\<close> and the plan actions are not among the sources;
  the records hold the members that build.cpp reads. A member whose name another record
  has already is prefixed, and the plan type \<^verbatim>\<open>InstallPlanType::INSTALL\<close> is
  \<open>INSTALL_ONLY\<close> here, since \<open>INSTALL\<close> is the value of \<^verbatim>\<open>Want\<close>. The two-valued option
  enumerations \<^verbatim>\<open>UseHeadVersion\<close> and \<^verbatim>\<open>AllowDownloads\<close> are booleans (their
  \<^verbatim>\<open>to_bool\<close>).
\<close>

record Dependency =
  dependency_name :: string
  qualifier :: "string option"

record SourceParagraph =
  name :: string
  source_version :: string
  source_description :: string
  source_maintainer :: string
  source_depends :: "Dependency list"
  source_default_features :: "string list"

record FeatureParagraph =
  feature_name :: string
  feature_description :: string
  feature_depends :: "Dependency list"

record SourceControlFile =
  source_core_paragraph :: SourceParagraph
  feature_paragraphs :: "FeatureParagraph list"

record BuildPackageOptions =
  use_head_version :: bool
  allow_downloads :: bool

text \<open>
  \<^verbatim>\<open>scf\<close> and \<^verbatim>\<open>feature_list\<close> are pointers, null when the configuration was made from a
  \<^verbatim>\<open>SourceParagraph\<close> alone.
\<close>

record BuildPackageConfig =
  src :: SourceParagraph
  scf :: "SourceControlFile option"
  triplet :: Triplet
  port_dir :: path
  build_package_options :: BuildPackageOptions
  feature_list :: "string list option"

definition BuildPackageConfig_of_source ::
  "SourceParagraph \<Rightarrow> Triplet \<Rightarrow> path \<Rightarrow> BuildPackageOptions \<Rightarrow> BuildPackageConfig" where
  "BuildPackageConfig_of_source spgh t dir_of_port opts =
     \<lparr>src = spgh, scf = None, triplet = t, port_dir = dir_of_port,
      build_package_options = opts, feature_list = None\<rparr>"

definition BuildPackageConfig_of_control_file ::
  "SourceControlFile \<Rightarrow> Triplet \<Rightarrow> path \<Rightarrow> BuildPackageOptions \<Rightarrow> string list \<Rightarrow>
     BuildPackageConfig" where
  "BuildPackageConfig_of_control_file file t dir_of_port opts feats =
     \<lparr>src = source_core_paragraph file, scf = Some file, triplet = t, port_dir = dir_of_port,
      build_package_options = opts, feature_list = Some feats\<rparr>"

record ExtendedBuildResult =
  code :: BuildResult
  unmet_dependencies :: "PackageSpec list"

datatype CPUArchitecture = X86 | X64 | ARM | ARM64

record ToolsetArchOption =
  arch_name :: string
  host_arch :: CPUArchitecture
  target_arch :: CPUArchitecture

record Toolset =
  dumpbin :: path
  vcvarsall :: path
  vcvarsall_options :: "string list"
  toolset_version :: string
  supported_architectures :: "ToolsetArchOption list"


datatype RequestType = USER_REQUESTED | AUTO_SELECTED

record AnyParagraph =
  source_control_file :: "SourceControlFile option"
  source_paragraph :: "SourceParagraph option"
  binary_control_file :: "BinaryControlFile option"


record RemovePlanAction =
  remove_spec :: PackageSpec
  remove_request_type :: RequestType



section \<open>External collaborators\<close>

text \<open>
  What build.cpp calls and the sources do not define, or what leaves the process: the two
  global flags, tool discovery, the toolchain resolver, child processes, the paragraph
  reader, the post-build lint, serialization, the reader of installed files, the cached
  binary control file and the remove action. Each is a member of this record; a theorem
  about a function that takes the record holds for every choice of them.
\<close>

record Externals =
  feature_packages :: bool
  debugging :: bool
  qualifier_applies :: "string \<Rightarrow> Triplet \<Rightarrow> bool"
  cmake_exe :: "fatal + path"
  git_exe :: "fatal + path"
  execute_and_capture_output :: "string \<Rightarrow> filesystem \<Rightarrow> int \<times> string"
  execute_clean :: "string \<Rightarrow> filesystem \<Rightarrow> int \<times> filesystem"
  toolset_for :: "string option \<Rightarrow> string option \<Rightarrow> fatal + Toolset"
  cpu_architecture_of :: "string \<Rightarrow> CPUArchitecture option"
  supported_host_architectures :: "CPUArchitecture list"
  cmake_cmd :: "path \<Rightarrow> path \<Rightarrow> (string \<times> string) list \<Rightarrow> string"
  strings_split :: splitter
  single_paragraph :: "filesystem \<Rightarrow> path \<Rightarrow> fieldmap option"
  lint_error_count :: "PackageSpec \<Rightarrow> filesystem \<Rightarrow> PreBuildInfo \<Rightarrow> BuildInfo \<Rightarrow> nat"
  serialized :: "BinaryParagraph \<Rightarrow> string"
  installed_files :: installed_files_reader
  cached_control_package :: "filesystem \<Rightarrow> PackageSpec \<Rightarrow> BinaryControlFile option"
  remove_action :: "RemovePlanAction \<Rightarrow> StatusParagraphs \<Rightarrow> world \<Rightarrow> StatusParagraphs outcome"

section \<open>The build driver (namespace vcpkg::Build)\<close>

text \<open>
  Modelled from the spec: \<^verbatim>\<open>PackageSpec::from_name_and_triplet\<close> and
  \<^verbatim>\<open>filter_dependencies\<close> (packagespec.cpp and sourceparagraph.cpp are not among the
  sources). A package name is an identifier matching \<^verbatim>\<open>[a-z0-9][a-z0-9-]*\<close>; a dependency
  is a name with an optional qualifier, which restricts it to the triplets that satisfy
  the qualifier's predicate.
\<close>

definition is_identifier :: "string \<Rightarrow> bool" where
  "is_identifier s =
     (case s of
        [] \<Rightarrow> False
      | c # cs \<Rightarrow>
          c \<in> set ''abcdefghijklmnopqrstuvwxyz0123456789'' \<and>
          list_all (\<lambda>c. c \<in> set ''abcdefghijklmnopqrstuvwxyz0123456789-'') cs)"

definition from_name_and_triplet :: "string \<Rightarrow> Triplet \<Rightarrow> PackageSpec option" where
  "from_name_and_triplet n t =
     (if is_identifier n then Some \<lparr>m_name = n, m_triplet = t\<rparr> else None)"

definition filter_dependencies :: "Externals \<Rightarrow> Dependency list \<Rightarrow> Triplet \<Rightarrow> string list" where
  "filter_dependencies ext deps t =
     map dependency_name
       (filter (\<lambda>dep. case qualifier dep of
                         None \<Rightarrow> True
                       | Some q \<Rightarrow> qualifier_applies ext q t) deps)"

text \<open>
  Modelled from the spec: the constructors of \<^verbatim>\<open>BinaryParagraph\<close> declared in
  binaryparagraph.h. A binary paragraph is the source paragraph (or the feature
  paragraph of a source paragraph) projected through a triplet.
\<close>

definition BinaryParagraph_of_source ::
  "Externals \<Rightarrow> SourceParagraph \<Rightarrow> Triplet \<Rightarrow> BinaryParagraph" where
  "BinaryParagraph_of_source ext spgh t =
     \<lparr>spec = \<lparr>m_name = name spgh, m_triplet = t\<rparr>, binary_version = source_version spgh,
      description = source_description spgh, maintainer = source_maintainer spgh,
      feature = [], default_features = source_default_features spgh,
      depends = filter_dependencies ext (source_depends spgh) t\<rparr>"

definition BinaryParagraph_of_feature ::
  "Externals \<Rightarrow> SourceParagraph \<Rightarrow> FeatureParagraph \<Rightarrow> Triplet \<Rightarrow> BinaryParagraph" where
  "BinaryParagraph_of_feature ext spgh fpgh t =
     \<lparr>spec = \<lparr>m_name = name spgh, m_triplet = t\<rparr>, binary_version = [],
      description = feature_description fpgh, maintainer = [],
      feature = feature_name fpgh, default_features = [],
      depends = filter_dependencies ext (feature_depends fpgh) t\<rparr>"

fun join :: "string \<Rightarrow> string list \<Rightarrow> string" where
  "join delimiter [] = []"
| "join delimiter [x] = x"
| "join delimiter (x # y # ys) = x @ delimiter @ join delimiter (y # ys)"

definition to_vcvarsall_target :: "string \<Rightarrow> fatal + string" where
  "to_vcvarsall_target system_name =
     (if system_name = [] then Inr []
      else if system_name = ''Windows'' then Inr []
      else if system_name = ''WindowsStore'' then Inr ''store''
      else Inl (Unsupported_vcvarsall_target system_name))"

text \<open>The loop over the host architectures; \<^verbatim>\<open>Util::find_if\<close> is \<^const>\<open>find\<close>.\<close>

fun find_toolchain ::
  "CPUArchitecture list \<Rightarrow> CPUArchitecture \<Rightarrow> ToolsetArchOption list \<Rightarrow> string option" where
  "find_toolchain [] target options = None"
| "find_toolchain (host # hosts) target options =
     (case find (\<lambda>opt. host = host_arch opt \<and> target = target_arch opt) options of
        Some opt \<Rightarrow> Some (arch_name opt)
      | None \<Rightarrow> find_toolchain hosts target options)"

definition to_vcvarsall_toolchain :: "Externals \<Rightarrow> string \<Rightarrow> Toolset \<Rightarrow> fatal + string" where
  "to_vcvarsall_toolchain ext architecture toolset =
     (case cpu_architecture_of ext architecture of
        None \<Rightarrow> Inl (Invalid_architecture architecture)
      | Some target \<Rightarrow>
         (case find_toolchain (supported_host_architectures ext) target
                 (supported_architectures toolset) of
            Some n \<Rightarrow> Inr n
          | None \<Rightarrow> Inl (Unsupported_toolchain architecture)))"

definition make_build_env_cmd :: "Externals \<Rightarrow> PreBuildInfo \<Rightarrow> Toolset \<Rightarrow> fatal + string" where
  "make_build_env_cmd ext pre_build_info toolset =
     (let tonull = (if debugging ext then [] else '' >nul'') in
      case to_vcvarsall_toolchain ext (target_architecture pre_build_info) toolset of
        Inl e \<Rightarrow> Inl e
      | Inr arch \<Rightarrow>
         (case to_vcvarsall_target (cmake_system_name pre_build_info) of
            Inl e \<Rightarrow> Inl e
          | Inr target \<Rightarrow>
              Inr ([CHR 0x22] @ vcvarsall toolset @ [CHR 0x22] @ '' ''
                   @ join '' '' (vcvarsall_options toolset) @ '' '' @ arch @ '' ''
                   @ target @ '' '' @ tonull @ '' 2>&1'')))"

definition create_binary_control_file ::
  "Externals \<Rightarrow> SourceParagraph \<Rightarrow> Triplet \<Rightarrow> BuildInfo \<Rightarrow> BinaryControlFile" where
  "create_binary_control_file ext spgh t build_info =
     (let bpgh = BinaryParagraph_of_source ext spgh t in
      \<lparr>core_paragraph =
         (case version build_info of
            Some p_ver \<Rightarrow> bpgh\<lparr>binary_version := p_ver\<rparr>
          | None \<Rightarrow> bpgh),
       features = []\<rparr>)"

definition create_binary_feature_control_file ::
  "Externals \<Rightarrow> SourceParagraph \<Rightarrow> FeatureParagraph \<Rightarrow> Triplet \<Rightarrow> BinaryControlFile \<Rightarrow>
     BinaryControlFile" where
  "create_binary_feature_control_file ext spgh fpgh t bcf =
     bcf\<lparr>features := features bcf @ [BinaryParagraph_of_feature ext spgh fpgh t]\<rparr>"

definition control_file_text :: "Externals \<Rightarrow> BinaryControlFile \<Rightarrow> string" where
  "control_file_text ext bcf =
     serialized ext (core_paragraph bcf)
     @ concat (map (\<lambda>f. [CHR 0x0A] @ serialized ext f) (features bcf))"

definition write_binary_control_file ::
  "Externals \<Rightarrow> VcpkgPaths \<Rightarrow> BinaryControlFile \<Rightarrow> world \<Rightarrow> world" where
  "write_binary_control_file ext paths bcf w =
     (let start = control_file_text ext bcf;
          binary_control_file =
            path_append (path_append (packages paths) (dir (spec (core_paragraph bcf))))
              ''CONTROL''
      in w\<lparr>disk := write_contents (disk w) binary_control_file start\<rparr>)"

text \<open>
  The triplet environment of \<^verbatim>\<open>PreBuildInfo::from_triplet_file\<close>, with the child process
  that produces it.
\<close>

definition run_from_triplet_file ::
  "Externals \<Rightarrow> VcpkgPaths \<Rightarrow> Triplet \<Rightarrow> world \<Rightarrow> PreBuildInfo outcome" where
  "run_from_triplet_file ext paths t w =
     (case cmake_exe ext of
        Inl e \<Rightarrow> Exit e w
      | Inr cmake_exe_path \<Rightarrow>
          let ports_cmake_script_path =
                path_append (scripts paths) ''get_triplet_environment.cmake'';
              triplet_file_path = path_append (triplets paths) (t @ ''.cmake'');
              cmd_launch_cmake =
                cmake_cmd ext cmake_exe_path ports_cmake_script_path
                  [(''CMAKE_TRIPLET_FILE'', triplet_file_path)];
              ec_data = execute_and_capture_output ext cmd_launch_cmake (disk w);
              w' = w\<lparr>executed := executed w @ [cmd_launch_cmake]\<rparr>
          in case from_triplet_file (strings_split ext) ec_data of
               Inl e \<Rightarrow> Exit e w'
             | Inr pre_build_info \<Rightarrow> Return pre_build_info w')"

text \<open>
  The first loop of \<^verbatim>\<open>build_package\<close>: the specs of the dependencies that
  \<^verbatim>\<open>find_installed\<close> does not find; \<^verbatim>\<open>value_or_exit\<close> ends the process at a dependency
  without a valid spec.
\<close>

fun missing_specs_of ::
  "StatusParagraphs \<Rightarrow> Triplet \<Rightarrow> string list \<Rightarrow> PackageSpec list \<Rightarrow> fatal + PackageSpec list" where
  "missing_specs_of status_db t [] missing_specs = Inr missing_specs"
| "missing_specs_of status_db t (dep # deps) missing_specs =
     (if find_installed status_db dep t = None then
        (case from_name_and_triplet dep t of
           None \<Rightarrow> Inl (Invalid_package_spec dep)
         | Some s \<Rightarrow> missing_specs_of status_db t deps (missing_specs @ [s]))
      else missing_specs_of status_db t deps missing_specs)"

definition features_string :: "Externals \<Rightarrow> BuildPackageConfig \<Rightarrow> string" where
  "features_string ext config =
     (if feature_packages ext then
        (case feature_list config of
           Some feats \<Rightarrow> join '';'' feats
         | None \<Rightarrow> [])
      else [])"

text \<open>
  Lines 266 to 307: everything between the check of the dependencies and the child
  process, ending with the command line of the build. In \<^verbatim>\<open>config.port_dir / "/."\<close> the
  operand begins with a separator, so \<^verbatim>\<open>operator/\<close> adds none.
\<close>

definition build_command ::
  "Externals \<Rightarrow> VcpkgPaths \<Rightarrow> BuildPackageConfig \<Rightarrow> world \<Rightarrow> (string \<times> PreBuildInfo) outcome" where
  "build_command ext paths config w =
     (case cmake_exe ext of
        Inl e \<Rightarrow> Exit e w
      | Inr cmake_exe_path \<Rightarrow>
     (case git_exe ext of
        Inl e \<Rightarrow> Exit e w
      | Inr git_exe_path \<Rightarrow>
     (case run_from_triplet_file ext paths (triplet config) w of
        Exit e w' \<Rightarrow> Exit e w'
      | Return pre_build_info w' \<Rightarrow>
     (case toolset_for ext (platform_toolset pre_build_info)
             (visual_studio_path pre_build_info) of
        Inl e \<Rightarrow> Exit e w'
      | Inr toolset \<Rightarrow>
          let cmd_launch_cmake =
                cmake_cmd ext cmake_exe_path (ports_cmake paths)
                  [(''CMD'', ''BUILD''),
                   (''PORT'', name (src config)),
                   (''CURRENT_PORT_DIR'', port_dir config @ ''/.''),
                   (''TARGET_TRIPLET'', triplet config),
                   (''VCPKG_PLATFORM_TOOLSET'', toolset_version toolset),
                   (''VCPKG_USE_HEAD_VERSION'',
                      if use_head_version (build_package_options config) then ''1'' else ''0''),
                   (''_VCPKG_NO_DOWNLOADS'',
                      if \<not> allow_downloads (build_package_options config) then ''1'' else ''0''),
                   (''GIT'', git_exe_path),
                   (''FEATURES'', features_string ext config)]
          in case make_build_env_cmd ext pre_build_info toolset of
               Inl e \<Rightarrow> Exit e w'
             | Inr cmd_set_environment \<Rightarrow>
                 Return (cmd_set_environment @ '' && '' @ cmd_launch_cmake, pre_build_info) w'))))"

text \<open>\<^verbatim>\<open>System::cmd_execute_clean\<close>: the child process of the build.\<close>

definition cmd_execute_clean :: "Externals \<Rightarrow> string \<Rightarrow> world \<Rightarrow> int \<times> world" where
  "cmd_execute_clean ext command w =
     (case execute_clean ext command (disk w) of
        (return_code, fs') \<Rightarrow>
          (return_code, w\<lparr>disk := fs', executed := executed w @ [command]\<rparr>))"

text \<open>
  The loops over \<^verbatim>\<open>*config.feature_list\<close> and \<^verbatim>\<open>config.scf->feature_paragraphs\<close>.
\<close>

definition add_feature_paragraphs ::
  "Externals \<Rightarrow> SourceControlFile \<Rightarrow> Triplet \<Rightarrow> string list \<Rightarrow> BinaryControlFile \<Rightarrow>
     BinaryControlFile" where
  "add_feature_paragraphs ext file t feats bcf =
     fold (\<lambda>feat bcf'.
             fold (\<lambda>f_pgh bcf''.
                     if feature_name f_pgh = feat
                     then create_binary_feature_control_file ext (source_core_paragraph file)
                            f_pgh t bcf''
                     else bcf'')
               (feature_paragraphs file) bcf')
       feats bcf"

text \<open>
  Lines 311 to 357: what follows the child process, from its return code.
  \<^verbatim>\<open>config.scf\<close> is dereferenced in the body of the loop over \<^verbatim>\<open>*config.feature_list\<close>,
  that is, only when the list has an element.
\<close>

definition build_result ::
  "Externals \<Rightarrow> VcpkgPaths \<Rightarrow> BuildPackageConfig \<Rightarrow> PackageSpec \<Rightarrow> PreBuildInfo \<Rightarrow> int \<Rightarrow>
     world \<Rightarrow> ExtendedBuildResult outcome" where
  "build_result ext paths config s pre_build_info return_code w =
     (if return_code \<noteq> 0 then Return \<lparr>code = BUILD_FAILED, unmet_dependencies = []\<rparr> w
      else
        case read_build_info (single_paragraph ext (disk w) (build_info_file_path paths s)) of
          Inl e \<Rightarrow> Exit e w
        | Inr build_info \<Rightarrow>
            let error_count = lint_error_count ext s (disk w) pre_build_info build_info;
                bcf = create_binary_control_file ext (src config) (triplet config) build_info
            in
              if error_count \<noteq> 0
              then Return \<lparr>code = POST_BUILD_CHECKS_FAILED, unmet_dependencies = []\<rparr> w
              else if feature_packages ext then
                (case feature_list config of
                   None \<Rightarrow>
                     Return \<lparr>code = SUCCEEDED, unmet_dependencies = []\<rparr>
                       (write_binary_control_file ext paths bcf w)
                 | Some feats \<Rightarrow>
                    (case scf config of
                       None \<Rightarrow>
                         if feats = []
                         then Return \<lparr>code = SUCCEEDED, unmet_dependencies = []\<rparr>
                                (write_binary_control_file ext paths bcf w)
                         else Exit Null_pointer w
                     | Some file \<Rightarrow>
                         Return \<lparr>code = SUCCEEDED, unmet_dependencies = []\<rparr>
                           (write_binary_control_file ext paths
                              (add_feature_paragraphs ext file (triplet config) feats bcf) w)))
              else
                Return \<lparr>code = SUCCEEDED, unmet_dependencies = []\<rparr>
                  (write_binary_control_file ext paths bcf w))"

definition build_package ::
  "Externals \<Rightarrow> VcpkgPaths \<Rightarrow> BuildPackageConfig \<Rightarrow> StatusParagraphs \<Rightarrow> world \<Rightarrow>
     ExtendedBuildResult outcome" where
  "build_package ext paths config status_db w =
     (case from_name_and_triplet (name (src config)) (triplet config) of
        None \<Rightarrow> Exit (Invalid_package_spec (name (src config))) w
      | Some s \<Rightarrow>
         (case missing_specs_of status_db (triplet config)
                 (filter_dependencies ext (source_depends (src config)) (triplet config)) [] of
            Inl e \<Rightarrow> Exit e w
          | Inr missing_specs \<Rightarrow>
              if missing_specs \<noteq> []
              then Return \<lparr>code = CASCADED_DUE_TO_MISSING_DEPENDENCIES,
                           unmet_dependencies = missing_specs\<rparr> w
              else
                case build_command ext paths config w of
                  Exit e w1 \<Rightarrow> Exit e w1
                | Return (command, pre_build_info) w1 \<Rightarrow>
                   (case cmd_execute_clean ext command w1 of
                      (return_code, w2) \<Rightarrow>
                        build_result ext paths config s pre_build_info return_code w2)))"

section \<open>The executor (namespace vcpkg::Install)\<close>




subsection \<open>Vocabulary and examples for the build driver and the executor\<close>

text \<open>
  The dependencies of a list of names that the status database knows: the names of the
  list, and the \<^verbatim>\<open>depends\<close> of the record of a package that is a dependency already.
\<close>

inductive transitive_dependency :: "StatusParagraphs \<Rightarrow> Triplet \<Rightarrow> string list \<Rightarrow> string \<Rightarrow> bool"
  for status_db :: StatusParagraphs and t :: Triplet and deps :: "string list" where
  listed: "dep \<in> set deps \<Longrightarrow> transitive_dependency status_db t deps dep"
| through: "transitive_dependency status_db t deps mid \<Longrightarrow>
            find_status status_db mid t [] = Some pgh \<Longrightarrow>
            dep \<in> set (depends (package pgh)) \<Longrightarrow>
            transitive_dependency status_db t deps dep"

code_pred transitive_dependency .

text \<open>The dependencies of the list that \<^verbatim>\<open>find_installed\<close> does not find.\<close>

definition missing_dependencies :: "StatusParagraphs \<Rightarrow> Triplet \<Rightarrow> string list \<Rightarrow> string list" where
  "missing_dependencies status_db t deps =
     filter (\<lambda>dep. find_installed status_db dep t = None) deps"

definition example_toolset :: Toolset where
  "example_toolset =
     \<lparr>dumpbin = ''vs/dumpbin.exe'', vcvarsall = ''vs/vcvarsall.bat'', vcvarsall_options = [],
      toolset_version = ''v141'',
      supported_architectures =
        [\<lparr>arch_name = ''x86'', host_arch = X86, target_arch = X86\<rparr>,
         \<lparr>arch_name = ''amd64'', host_arch = X64, target_arch = X64\<rparr>]\<rparr>"

text \<open>
  Collaborators for the examples. The build writes a \<^verbatim>\<open>BUILD_INFO\<close> file into the sandbox
  of the port \<open>b\<close> and returns \<open>return_code\<close>; the lint finds \<open>errors\<close> errors.
\<close>

definition example_ext :: "int \<Rightarrow> nat \<Rightarrow> Externals" where
  "example_ext return_code errors =
     \<lparr>feature_packages = False, debugging = False,
      qualifier_applies = (\<lambda>q t. q = t),
      cmake_exe = Inr ''cmake'', git_exe = Inr ''git'',
      execute_and_capture_output = (\<lambda>cmd fs. (0, example_output)),
      execute_clean =
        (\<lambda>cmd fs. (return_code,
           AList.update ''r/packages/b_x64/BUILD_INFO'' (File ''CRTLinkage: dynamic'')
             (AList.update ''r/packages/b_x64'' Dir fs))),
      toolset_for = (\<lambda>toolset_name vs_path. Inr example_toolset),
      cpu_architecture_of =
        (\<lambda>s. if s = ''x64'' then Some X64 else if s = ''x86'' then Some X86 else None),
      supported_host_architectures = [X64, X86],
      cmake_cmd = (\<lambda>exe script vars. exe @ '' -P '' @ script),
      strings_split = example_split,
      single_paragraph =
        (\<lambda>fs p. case map_of fs p of Some (File _) \<Rightarrow> Some example_build_info | _ \<Rightarrow> None),
      lint_error_count = (\<lambda>s fs pre_build_info build_info. errors),
      serialized =
        (\<lambda>pgh. ''Package: '' @ m_name (spec pgh)
               @ (if feature pgh = [] then [] else [CHR 0x0A] @ ''Feature: '' @ feature pgh)),
      installed_files = listfile_reader example_paths,
      cached_control_package = (\<lambda>fs s. None),
      remove_action = (\<lambda>remove status_db w. Return status_db w)\<rparr>"

definition example_source :: "string \<Rightarrow> string list \<Rightarrow> SourceParagraph" where
  "example_source n deps =
     \<lparr>name = n, source_version = ''1'', source_description = [], source_maintainer = [],
      source_depends = map (\<lambda>d. \<lparr>dependency_name = d, qualifier = None\<rparr>) deps,
      source_default_features = []\<rparr>"

definition example_config :: "string \<Rightarrow> string list \<Rightarrow> BuildPackageConfig" where
  "example_config n deps =
     BuildPackageConfig_of_source (example_source n deps) ''x64'' (''r/ports/'' @ n)
       \<lparr>use_head_version = False, allow_downloads = True\<rparr>"

text \<open>
  A status database in which \<open>a\<close> is installed and depends on \<open>c\<close>, while \<open>c\<close> is only
  half installed.
\<close>

definition example_half_db :: StatusParagraphs where
  "example_half_db =
     [installed_record ((example_paragraph ''a'')\<lparr>depends := [''c'']\<rparr>),
      half_installed (example_paragraph ''c'')]"



text \<open>What a function returned, if it did return.\<close>

fun returned :: "'a outcome \<Rightarrow> 'a option" where
  "returned (Exit e w) = None"
| "returned (Return x w) = Some x"

definition example_options :: BuildPackageOptions where
  "example_options = \<lparr>use_head_version = False, allow_downloads = True\<rparr>"

text \<open>
  The port \<open>b\<close> with the features \<open>tools\<close> and \<open>docs\<close>, a configuration that asks for
  \<open>docs\<close>, and collaborators with feature packages switched on.
\<close>

definition example_control_file :: SourceControlFile where
  "example_control_file =
     \<lparr>source_core_paragraph = example_source ''b'' [''a''],
      feature_paragraphs =
        [\<lparr>feature_name = ''tools'', feature_description = [], feature_depends = []\<rparr>,
         \<lparr>feature_name = ''docs'', feature_description = [], feature_depends = []\<rparr>]\<rparr>"

definition example_feature_config :: BuildPackageConfig where
  "example_feature_config =
     BuildPackageConfig_of_control_file example_control_file ''x64'' ''r/ports/b''
       example_options [''docs'']"

definition example_feature_ext :: Externals where
  "example_feature_ext = (example_ext 0 0)\<lparr>feature_packages := True\<rparr>"

text \<open>
  Collaborators whose command line names the port, and whose build fails for the port
  \<open>b\<close> and returns 0 for every other port without writing a \<^verbatim>\<open>BUILD_INFO\<close> file.
\<close>

definition example_plan_ext :: Externals where
  "example_plan_ext =
     (example_ext 0 0)
       \<lparr>execute_clean :=
          (\<lambda>cmd fs. (if drop (length cmd - 6) cmd = ''PORT=b'' then 1 else 0, fs)),
        cmake_cmd :=
          (\<lambda>exe script vars.
             exe @ '' -P '' @ script
             @ (case map_of vars ''PORT'' of Some p \<Rightarrow> '' -DPORT='' @ p | None \<Rightarrow> []))\<rparr>"



section \<open>Properties of the BUILD_INFO reader and of the triplet environment\<close>

lemma erase_absent: "map_of xs k = None \<Longrightarrow> erase_field k xs = xs"
  by (induction xs) (auto simp: erase_field_def split: if_splits)

lemma map_of_erase: "map_of (erase_field k xs) k' = (if k' = k then None else map_of xs k')"
  by (induction xs) (auto simp: erase_field_def)

lemma field_value_erase:
  "field_value (erase_field k xs) k' = (if k' = k then [] else field_value xs k')"
  by (simp add: field_value_def map_of_erase)

lemma keys_erase: "fst ` set (erase_field k xs) = fst ` set xs - {k}"
  by (auto simp: erase_field_def)

lemma optional_field_eq:
  "optional_field k p = (field_value (parser_fields p) k, p\<lparr>parser_fields := erase_field k (parser_fields p)\<rparr>)"
  by (auto simp: optional_field_def field_value_def erase_absent split: option.splits)

lemma required_field_eq:
  "required_field k [] p =
     (field_value (parser_fields p) k,
      p\<lparr>parser_fields := erase_field k (parser_fields p),
        missing_fields := missing_fields p @ (if map_of (parser_fields p) k = None then [k] else [])\<rparr>)"
  by (auto simp: required_field_def field_value_def erase_absent split: option.splits)

lemma to_string_inj: "to_string p = to_string q \<longleftrightarrow> p = q"
  by (cases p; cases q) simp_all

lemma read_policies_Cons:
  "read_policies (policy # rest) parser pols =
     (if field_value (parser_fields parser) (to_string policy) \<in> {[], ''enabled'', ''disabled''}
      then read_policies rest
             (parser\<lparr>parser_fields := erase_field (to_string policy) (parser_fields parser)\<rparr>)
             (emplace_setting pols policy (field_value (parser_fields parser) (to_string policy)))
      else Inl (Unknown_policy_setting (to_string policy)
                  (field_value (parser_fields parser) (to_string policy))))"
  by (simp add: optional_field_eq emplace_setting_def)

lemma read_policies_fatal:
  "(\<exists>e. read_policies ps parser pols = Inl e) \<longleftrightarrow>
     (\<exists>p\<in>set ps. field_value (parser_fields parser) (to_string p) \<notin> {[], ''enabled'', ''disabled''})"
proof (induction ps arbitrary: parser pols)
  case Nil
  then show ?case by simp
next
  case (Cons policy rest)
  show ?case
    unfolding read_policies_Cons
    by (auto simp: Cons.IH field_value_erase to_string_inj simp del: read_policies.simps)
qed

lemma read_policies_result:
  "read_policies ps parser pols = Inr (pols', parser') \<Longrightarrow>
     missing_fields parser' = missing_fields parser \<and>
     fst ` set (parser_fields parser') = fst ` set (parser_fields parser) - to_string ` set ps \<and>
     (\<forall>p. pols' p =
        (case pols p of Some b \<Rightarrow> Some b
         | None \<Rightarrow> if p \<in> set ps then policy_setting (field_value (parser_fields parser) (to_string p))
                   else None))"
proof (induction ps arbitrary: parser pols)
  case Nil
  then show ?case by (auto split: option.splits)
next
  case (Cons policy rest)
  let ?parser = "parser\<lparr>parser_fields := erase_field (to_string policy) (parser_fields parser)\<rparr>"
  let ?v = "field_value (parser_fields parser) (to_string policy)"
  let ?pols1 = "emplace_setting pols policy ?v"
  from Cons.prems have
    run: "read_policies rest ?parser ?pols1 = Inr (pols', parser')"
    unfolding read_policies_Cons by (simp split: if_splits)
  note ih = Cons.IH [OF run]
  have "missing_fields parser' = missing_fields parser"
    using ih by simp
  moreover have "fst ` set (parser_fields parser') =
      fst ` set (parser_fields parser) - to_string ` set (policy # rest)"
    using ih by (auto simp: keys_erase)
  moreover have "pols' p =
        (case pols p of Some b \<Rightarrow> Some b
         | None \<Rightarrow> if p \<in> set (policy # rest)
                   then policy_setting (field_value (parser_fields parser) (to_string p))
                   else None)" for p
  proof -
    have "pols' p = (case ?pols1 p of Some b \<Rightarrow> Some b
         | None \<Rightarrow> if p \<in> set rest
                   then policy_setting (field_value (parser_fields ?parser) (to_string p))
                   else None)"
      using ih by simp
    then show ?thesis
      by (auto simp: emplace_setting_def emplace_def field_value_erase to_string_inj policy_setting_def
          split: option.splits if_splits)
  qed
  ultimately show ?case by blast
qed

lemma field_value_linkage:
  "to_linkage_type (field_value pgh k) = Some l \<Longrightarrow> map_of pgh k \<noteq> None"
  by (auto simp: to_linkage_type_def field_value_def split: option.splits if_splits)

lemma to_linkage_type_Some:
  "(\<exists>l. to_linkage_type s = Some l) \<longleftrightarrow> s \<in> {''dynamic'', ''static''}"
  by (auto simp: to_linkage_type_def)

lemma all_policies: "set G_ALL_POLICIES = UNIV"
proof -
  have "p \<in> set G_ALL_POLICIES" for p
    by (cases p) (simp_all add: G_ALL_POLICIES_def)
  then show ?thesis by blast
qed


lemma inner_create_buildinfo_eq:
  "inner_create_buildinfo pgh =
     (case to_linkage_type (field_value pgh CRT_LINKAGE) of
        None \<Rightarrow> Inl (Invalid_crt_linkage (field_value pgh CRT_LINKAGE))
      | Some crt \<Rightarrow>
     (case to_linkage_type (field_value pgh LIBRARY_LINKAGE) of
        None \<Rightarrow> Inl (Invalid_library_linkage (field_value pgh LIBRARY_LINKAGE))
      | Some lib \<Rightarrow>
     (case read_policies G_ALL_POLICIES
             \<lparr>parser_fields = erase_field ''Version'' (erase_field LIBRARY_LINKAGE (erase_field CRT_LINKAGE pgh)),
              missing_fields = []\<rparr> Map.empty of
        Inl e \<Rightarrow> Inl e
      | Inr (pols, parser4) \<Rightarrow>
         (case error_info ''PostBuildInformation'' parser4 of
            Some err \<Rightarrow> Inl err
          | None \<Rightarrow>
              Inr \<lparr>crt_linkage = crt, library_linkage = lib,
                   version = (if field_value pgh ''Version'' = [] then None
                              else Some (field_value pgh ''Version'')),
                   policies = pols\<rparr>))))"
proof (cases "to_linkage_type (field_value pgh CRT_LINKAGE)")
  case None
  then show ?thesis
    by (simp add: inner_create_buildinfo_def required_field_eq)
next
  case crt: (Some crt)
  then obtain c where c: "map_of pgh CRT_LINKAGE = Some c"
    using field_value_linkage by blast
  have names: "LIBRARY_LINKAGE \<noteq> CRT_LINKAGE" "''Version'' \<noteq> CRT_LINKAGE"
    "''Version'' \<noteq> LIBRARY_LINKAGE"
    by (simp_all add: CRT_LINKAGE_def LIBRARY_LINKAGE_def)
  show ?thesis
  proof (cases "to_linkage_type (field_value pgh LIBRARY_LINKAGE)")
    case None
    then show ?thesis
      using crt c names(1)
      by (simp add: inner_create_buildinfo_def required_field_eq field_value_erase)
  next
    case lib: (Some lib)
    then obtain l where "map_of pgh LIBRARY_LINKAGE = Some l"
      using field_value_linkage by blast
    then have l: "map_of (erase_field CRT_LINKAGE pgh) LIBRARY_LINKAGE = Some l"
      using names(1) by (simp add: map_of_erase)
    show ?thesis
      using crt lib c l names
      by (simp add: inner_create_buildinfo_def required_field_eq optional_field_eq
          field_value_erase)
  qed
qed

lemma inner_create_buildinfo_Inr_iff:
  "inner_create_buildinfo pgh = Inr bi \<longleftrightarrow>
     (\<exists>crt lib pols parser4.
        to_linkage_type (field_value pgh CRT_LINKAGE) = Some crt \<and>
        to_linkage_type (field_value pgh LIBRARY_LINKAGE) = Some lib \<and>
        read_policies G_ALL_POLICIES
          \<lparr>parser_fields = erase_field ''Version''
             (erase_field LIBRARY_LINKAGE (erase_field CRT_LINKAGE pgh)),
           missing_fields = []\<rparr> Map.empty = Inr (pols, parser4) \<and>
        error_info ''PostBuildInformation'' parser4 = None \<and>
        bi = \<lparr>crt_linkage = crt, library_linkage = lib,
               version = (if field_value pgh ''Version'' = [] then None
                          else Some (field_value pgh ''Version'')),
               policies = pols\<rparr>)"
  unfolding inner_create_buildinfo_eq
  by (simp split: option.split sum.split prod.split) blast


lemma error_info_None:
  "error_info n parser = None \<longleftrightarrow> parser_fields parser = [] \<and> missing_fields parser = []"
  by (simp add: error_info_def)

lemma known_fields_erased:
  "fst ` set (erase_field ''Version'' (erase_field LIBRARY_LINKAGE (erase_field CRT_LINKAGE pgh)))
     - to_string ` set G_ALL_POLICIES = {} \<longleftrightarrow> fst ` set pgh \<subseteq> known_fields"
  by (auto simp: keys_erase known_fields_def)

lemma policy_field_names:
  "to_string p \<noteq> CRT_LINKAGE" "to_string p \<noteq> LIBRARY_LINKAGE" "to_string p \<noteq> ''Version''"
  by (cases p; simp add: CRT_LINKAGE_def LIBRARY_LINKAGE_def)+

lemma policy_field_value:
  "field_value (erase_field ''Version''
      (erase_field LIBRARY_LINKAGE (erase_field CRT_LINKAGE pgh))) (to_string p)
   = field_value pgh (to_string p)"
  by (simp add: field_value_erase policy_field_names)

lemma inner_create_buildinfo_accepts:
  "(\<exists>bi. inner_create_buildinfo pgh = Inr bi) \<longleftrightarrow>
     field_value pgh CRT_LINKAGE \<in> {''dynamic'', ''static''} \<and>
     field_value pgh LIBRARY_LINKAGE \<in> {''dynamic'', ''static''} \<and>
     (\<forall>policy. field_value pgh (to_string policy) \<in> {[], ''enabled'', ''disabled''}) \<and>
     fst ` set pgh \<subseteq> known_fields"
    (is "?lhs \<longleftrightarrow> ?crt \<and> ?lib \<and> ?pol \<and> ?known")
proof -
  let ?parser = "\<lparr>parser_fields = erase_field ''Version''
                     (erase_field LIBRARY_LINKAGE (erase_field CRT_LINKAGE pgh)),
                  missing_fields = []\<rparr>"
  have pol: "(\<exists>e. read_policies G_ALL_POLICIES ?parser Map.empty = Inl e) \<longleftrightarrow> \<not> ?pol"
    unfolding read_policies_fatal by (simp add: all_policies policy_field_value)
  show ?thesis
  proof
    assume ?lhs
    then obtain bi crt lib pols parser4 where
      crt: "to_linkage_type (field_value pgh CRT_LINKAGE) = Some crt" and
      lib: "to_linkage_type (field_value pgh LIBRARY_LINKAGE) = Some lib" and
      run: "read_policies G_ALL_POLICIES ?parser Map.empty = Inr (pols, parser4)" and
      err: "error_info ''PostBuildInformation'' parser4 = None"
      unfolding inner_create_buildinfo_Inr_iff by blast
    from run pol have ?pol
      by (metis Inl_Inr_False)
    moreover from read_policies_result [OF run] err have ?known
      unfolding error_info_None using known_fields_erased [of pgh] by simp
    moreover from crt have ?crt
      using to_linkage_type_Some [of "field_value pgh CRT_LINKAGE"] by blast
    moreover from lib have ?lib
      using to_linkage_type_Some [of "field_value pgh LIBRARY_LINKAGE"] by blast
    ultimately show "?crt \<and> ?lib \<and> ?pol \<and> ?known" by blast
  next
    assume r: "?crt \<and> ?lib \<and> ?pol \<and> ?known"
    from r have "\<exists>crt. to_linkage_type (field_value pgh CRT_LINKAGE) = Some crt"
      and "\<exists>lib. to_linkage_type (field_value pgh LIBRARY_LINKAGE) = Some lib"
      unfolding to_linkage_type_Some by simp_all
    then obtain crt lib where crt: "to_linkage_type (field_value pgh CRT_LINKAGE) = Some crt"
      and lib: "to_linkage_type (field_value pgh LIBRARY_LINKAGE) = Some lib"
      by blast
    from r pol have "\<nexists>e. read_policies G_ALL_POLICIES ?parser Map.empty = Inl e"
      by blast
    then obtain pols parser4 where
      run: "read_policies G_ALL_POLICIES ?parser Map.empty = Inr (pols, parser4)"
      by (cases "read_policies G_ALL_POLICIES ?parser Map.empty") auto
    from r have "fst ` set (parser_fields ?parser) - to_string ` set G_ALL_POLICIES = {}"
      using known_fields_erased [of pgh] by simp
    with read_policies_result [OF run] have "fst ` set (parser_fields parser4) = {}"
      and "missing_fields parser4 = []"
      by simp_all
    then have "parser_fields parser4 = []" and "missing_fields parser4 = []"
      by simp_all
    then have "error_info ''PostBuildInformation'' parser4 = None"
      unfolding error_info_None by simp
    with crt lib run show ?lhs
      unfolding inner_create_buildinfo_Inr_iff by blast
  qed
qed

lemma inner_create_buildinfo_result:
  assumes "inner_create_buildinfo pgh = Inr bi"
  shows "to_linkage_type (field_value pgh CRT_LINKAGE) = Some (crt_linkage bi) \<and>
     to_linkage_type (field_value pgh LIBRARY_LINKAGE) = Some (library_linkage bi) \<and>
     version bi = (if field_value pgh ''Version'' = [] then None else Some (field_value pgh ''Version'')) \<and>
     (\<forall>p. policies bi p = policy_setting (field_value pgh (to_string p)))"
proof -
  let ?parser = "\<lparr>parser_fields = erase_field ''Version''
                     (erase_field LIBRARY_LINKAGE (erase_field CRT_LINKAGE pgh)),
                  missing_fields = []\<rparr>"
  from assms obtain crt lib pols parser4 where
    crt: "to_linkage_type (field_value pgh CRT_LINKAGE) = Some crt" and
    lib: "to_linkage_type (field_value pgh LIBRARY_LINKAGE) = Some lib" and
    run: "read_policies G_ALL_POLICIES ?parser Map.empty = Inr (pols, parser4)" and
    bi: "bi = \<lparr>crt_linkage = crt, library_linkage = lib,
               version = (if field_value pgh ''Version'' = [] then None
                          else Some (field_value pgh ''Version'')),
               policies = pols\<rparr>"
    unfolding inner_create_buildinfo_Inr_iff by blast
  have "pols p = policy_setting (field_value pgh (to_string p))" for p
    using read_policies_result [OF run] by (simp add: all_policies policy_field_value)
  then show ?thesis
    using crt lib bi by simp
qed


text \<open>
  Claim C9, as amended. Reading a \<^verbatim>\<open>BUILD_INFO\<close> paragraph succeeds exactly when
  \<^verbatim>\<open>CRTLinkage\<close> and \<^verbatim>\<open>LibraryLinkage\<close> both carry \<^verbatim>\<open>dynamic\<close> or \<^verbatim>\<open>static\<close> (an
  absent field reads as the empty string and is fatal), every per-policy field, which the
  paragraph names \<^verbatim>\<open>PolicyEmptyPackage\<close>, \<^verbatim>\<open>PolicyDLLsWithoutLIBs\<close>,
  \<^verbatim>\<open>PolicyOnlyReleaseCRT\<close>, \<^verbatim>\<open>PolicyEmptyIncludeFolder\<close> and
  \<^verbatim>\<open>PolicyAllowObsoleteMsvcrt\<close>, is absent, empty, \<^verbatim>\<open>enabled\<close> or \<^verbatim>\<open>disabled\<close>, and the
  paragraph holds no field besides these and \<^verbatim>\<open>Version\<close>; every other paragraph is fatal.
  \<^verbatim>\<open>Version\<close> is optional: it decides nothing but the \<open>version\<close> of the result, and a
  policy is set exactly by an \<^verbatim>\<open>enabled\<close> or \<^verbatim>\<open>disabled\<close> field of its name.
\<close>

theorem inner_create_buildinfo_fields:
  "((\<exists>bi. inner_create_buildinfo pgh = Inr bi) \<longleftrightarrow>
      field_value pgh CRT_LINKAGE \<in> {''dynamic'', ''static''} \<and>
      field_value pgh LIBRARY_LINKAGE \<in> {''dynamic'', ''static''} \<and>
      (\<forall>policy. field_value pgh (to_string policy) \<in> {[], ''enabled'', ''disabled''}) \<and>
      fst ` set pgh \<subseteq> known_fields) \<and>
   (\<forall>bi. inner_create_buildinfo pgh = Inr bi \<longrightarrow>
      to_linkage_type (field_value pgh CRT_LINKAGE) = Some (crt_linkage bi) \<and>
      to_linkage_type (field_value pgh LIBRARY_LINKAGE) = Some (library_linkage bi) \<and>
      version bi = (if field_value pgh ''Version'' = [] then None
                    else Some (field_value pgh ''Version'')) \<and>
      (\<forall>policy. policies bi policy = policy_setting (field_value pgh (to_string policy))))"
  using inner_create_buildinfo_accepts [of pgh] inner_create_buildinfo_result [of pgh]
  by blast

theorem inner_create_buildinfo_fields_witness:
  "\<exists>bi. inner_create_buildinfo example_build_info = Inr bi \<and>
     crt_linkage bi = DYNAMIC \<and> library_linkage bi = STATIC \<and> version bi = None \<and>
     policies bi EMPTY_PACKAGE = Some True \<and> policies bi ONLY_RELEASE_CRT = None"
proof -
  have crt: "field_value example_build_info CRT_LINKAGE = ''dynamic''"
    and lib: "field_value example_build_info LIBRARY_LINKAGE = ''static''"
    and ver: "field_value example_build_info ''Version'' = []"
    by (simp_all add: field_value_def example_build_info_def CRT_LINKAGE_def LIBRARY_LINKAGE_def)
  have pol: "field_value example_build_info (to_string policy) \<in> {[], ''enabled'', ''disabled''}"
    for policy
    by (cases policy) (simp_all add: field_value_def example_build_info_def)
  have known: "fst ` set example_build_info \<subseteq> known_fields"
    by (simp add: example_build_info_def known_fields_def CRT_LINKAGE_def LIBRARY_LINKAGE_def
        G_ALL_POLICIES_def)
  have set1: "policy_setting (field_value example_build_info (to_string EMPTY_PACKAGE)) = Some True"
    and set2: "policy_setting (field_value example_build_info (to_string ONLY_RELEASE_CRT)) = None"
    by (simp_all add: policy_setting_def field_value_def example_build_info_def)
  note fields = inner_create_buildinfo_fields [of example_build_info]
  from fields crt lib pol known obtain bi where bi: "inner_create_buildinfo example_build_info = Inr bi"
    by auto
  with fields have
    "to_linkage_type (field_value example_build_info CRT_LINKAGE) = Some (crt_linkage bi)"
    "to_linkage_type (field_value example_build_info LIBRARY_LINKAGE) = Some (library_linkage bi)"
    "version bi = (if field_value example_build_info ''Version'' = [] then None
                   else Some (field_value example_build_info ''Version''))"
    "\<forall>policy. policies bi policy = policy_setting (field_value example_build_info (to_string policy))"
    by blast+
  with crt lib ver set1 set2 bi show ?thesis
    by (auto simp: to_linkage_type_def)
qed

text \<open>
  Claim C9 as the spec has it names the policy fields \<^verbatim>\<open>VCPKG_POLICY_*\<close>. A paragraph
  with valid linkages and \<^verbatim>\<open>VCPKG_POLICY_EMPTY_PACKAGE: enabled\<close> is not accepted, and a
  paragraph with valid linkages and no \<^verbatim>\<open>VCPKG_POLICY_*\<close> field at all is fatal for the
  setting of its \<^verbatim>\<open>PolicyEmptyPackage\<close> field.
\<close>

theorem build_info_policy_names_counterexample:
  "(\<exists>e. inner_create_buildinfo
      [(''CRTLinkage'', ''dynamic''), (''LibraryLinkage'', ''static''),
       (''VCPKG_POLICY_EMPTY_PACKAGE'', ''enabled'')] = Inl e) \<and>
   inner_create_buildinfo
      [(''CRTLinkage'', ''dynamic''), (''LibraryLinkage'', ''static''),
       (''PolicyEmptyPackage'', ''bogus'')]
     = Inl (Unknown_policy_setting ''PolicyEmptyPackage'' ''bogus'')"
  by (simp add: inner_create_buildinfo_def required_field_def optional_field_def erase_field_def
      CRT_LINKAGE_def LIBRARY_LINKAGE_def to_linkage_type_def G_ALL_POLICIES_def error_info_def)

lemma parse_triplet_lines_ok:
  "(\<exists>r. parse_triplet_lines split ls pbi = Inr r) \<longleftrightarrow> (\<forall>l\<in>set ls. recognized_line split l)"
  by (induction ls arbitrary: pbi) (auto simp: recognized_line_def Let_def)

lemma find_absent: "x \<notin> set xs \<Longrightarrow> dropWhile (\<lambda>l. l \<noteq> x) xs = []"
  by (induction xs) auto

lemma find_first: "x \<notin> set pre \<Longrightarrow> dropWhile (\<lambda>l. l \<noteq> x) (pre @ x # post) = x # post"
  by (induction pre) auto

text \<open>
  Claim C10. With exit code 0: when no line of the output equals the sentinel GUID,
  \<^verbatim>\<open>from_triplet_file\<close> returns the default \<^verbatim>\<open>PreBuildInfo\<close>; when the first sentinel line
  comes after the lines \<open>pre\<close> and before the lines \<open>post\<close>, the result is that of the loop
  on \<open>post\<close> alone, whatever \<open>pre\<close> holds, and it is a \<^verbatim>\<open>PreBuildInfo\<close> exactly when every
  line of \<open>post\<close> splits at \<^verbatim>\<open>=\<close> into one or two pieces with a recognized variable name
  first, and a fatal exit otherwise.
\<close>

theorem from_triplet_file_sentinel:
  "(FLAG_GUID \<notin> set (split out [CHR 0x0A]) \<longrightarrow>
      from_triplet_file split (0, out) = Inr default_pre_build_info) \<and>
   (split out [CHR 0x0A] = pre @ FLAG_GUID # post \<and> FLAG_GUID \<notin> set pre \<longrightarrow>
      from_triplet_file split (0, out) = parse_triplet_lines split post default_pre_build_info \<and>
      ((\<exists>r. from_triplet_file split (0, out) = Inr r) \<longleftrightarrow>
         (\<forall>l\<in>set post. recognized_line split l)))"
  by (simp add: from_triplet_file_def find_absent find_first parse_triplet_lines_ok)

lemma example_output_lines:
  "example_split example_output [CHR 0x0A] =
     [''-- not a pair = at = all''] @ FLAG_GUID #
     [''VCPKG_TARGET_ARCHITECTURE=x64'', ''VCPKG_PLATFORM_TOOLSET=v141'']"
  by (simp add: example_output_def example_split_def FLAG_GUID_def)

theorem from_triplet_file_sentinel_witness:
  "FLAG_GUID \<notin> set (example_split ''no sentinel = here = at all'' [CHR 0x0A]) \<and>
   from_triplet_file example_split (0, ''no sentinel = here = at all'') = Inr default_pre_build_info \<and>
   example_split example_output [CHR 0x0A] =
     [''-- not a pair = at = all''] @ FLAG_GUID #
     [''VCPKG_TARGET_ARCHITECTURE=x64'', ''VCPKG_PLATFORM_TOOLSET=v141''] \<and>
   FLAG_GUID \<notin> set [''-- not a pair = at = all''] \<and>
   from_triplet_file example_split (0, example_output) =
     Inr (default_pre_build_info\<lparr>target_architecture := ''x64'', platform_toolset := Some ''v141''\<rparr>)"
proof -
  have a: "FLAG_GUID \<notin> set (example_split ''no sentinel = here = at all'' [CHR 0x0A])"
    by (simp add: example_split_def FLAG_GUID_def)
  have b: "FLAG_GUID \<notin> set [''-- not a pair = at = all'']"
    by (simp add: FLAG_GUID_def)
  have c: "parse_triplet_lines example_split
             [''VCPKG_TARGET_ARCHITECTURE=x64'', ''VCPKG_PLATFORM_TOOLSET=v141'']
             default_pre_build_info =
           Inr (default_pre_build_info\<lparr>target_architecture := ''x64'', platform_toolset := Some ''v141''\<rparr>)"
    by (simp add: example_split_def)
  show ?thesis
    using a b c example_output_lines
      from_triplet_file_sentinel [of example_split "''no sentinel = here = at all''"]
      from_triplet_file_sentinel [of example_split example_output "[''-- not a pair = at = all'']"
        "[''VCPKG_TARGET_ARCHITECTURE=x64'', ''VCPKG_PLATFORM_TOOLSET=v141'']"]
    by simp
qed

section \<open>Properties of the installer\<close>

subsection \<open>The conflict scan\<close>

text \<open>
  Claim C1. When the intersection of the sandbox's file list with the list of the files
  installed for the triplet is not empty, \<^verbatim>\<open>install_package\<close> returns
  \<^verbatim>\<open>FILE_CONFLICTS\<close>; the database in memory is the one it was given, and neither the
  file system nor the journal of status records has changed (only the conflict report was
  printed).
\<close>

theorem install_package_file_conflicts:
  assumes "set_intersection
             (build_list_of_package_files (disk w) (package_dir paths (spec (core_paragraph bcf))))
             (build_list_of_installed_files (get_installed_files (disk w) status_db)
                (m_triplet (spec (core_paragraph bcf)))) \<noteq> []"
  shows "\<exists>w'. install_package get_installed_files paths bcf status_db w
                 = Return (FILE_CONFLICTS, status_db) w' \<and>
              disk w' = disk w \<and> updates w' = updates w"
  using assms by (simp add: install_package_def Let_def)

lemma example_conflict:
  "set_intersection
     (build_list_of_package_files (disk example_world)
        (package_dir example_paths (spec (core_paragraph (example_bcf ''q'')))))
     (build_list_of_installed_files
        (listfile_reader example_paths (disk example_world) example_status_db)
        (m_triplet (spec (core_paragraph (example_bcf ''q''))))) = [''bin/tool.exe'']"
  by code_simp

theorem install_package_file_conflicts_witness:
  "set_intersection
     (build_list_of_package_files (disk example_world)
        (package_dir example_paths (spec (core_paragraph (example_bcf ''q'')))))
     (build_list_of_installed_files
        (listfile_reader example_paths (disk example_world) example_status_db)
        (m_triplet (spec (core_paragraph (example_bcf ''q''))))) \<noteq> [] \<and>
   (\<exists>w'. install_package (listfile_reader example_paths) example_paths (example_bcf ''q'')
            example_status_db example_world
          = Return (FILE_CONFLICTS, example_status_db) w' \<and>
         disk w' = disk example_world \<and> updates w' = updates example_world)"
proof -
  have ne: "set_intersection
     (build_list_of_package_files (disk example_world)
        (package_dir example_paths (spec (core_paragraph (example_bcf ''q'')))))
     (build_list_of_installed_files
        (listfile_reader example_paths (disk example_world) example_status_db)
        (m_triplet (spec (core_paragraph (example_bcf ''q''))))) \<noteq> []"
    by (simp add: example_conflict)
  from ne install_package_file_conflicts
      [where w = example_world and paths = example_paths and bcf = "example_bcf ''q''"
         and get_installed_files = "listfile_reader example_paths"
         and status_db = example_status_db]
  show ?thesis
    by blast
qed

lemma set_intersection_sorted:
  "sorted xs \<Longrightarrow> sorted ys \<Longrightarrow> set (set_intersection xs ys) = set xs \<inter> set ys"
proof (induction xs ys rule: set_intersection.induct)
  case (3 x xs y ys)
  then show ?case by (auto simp: not_less)
qed simp_all

lemma under_append: "entry \<noteq> [] \<Longrightarrow> under d (d @ ''/'' @ entry)"
  by (cases entry) (simp_all add: under_def)

lemma set_build_list_of_package_files:
  "set (build_list_of_package_files fs d) = drop (length d + 1) ` set (get_files_recursive fs d)"
  by (simp add: build_list_of_package_files_def SortedVector_def)

lemma sorted_build_lists:
  "sorted (build_list_of_package_files fs d)"
  "sorted (build_list_of_installed_files pf t)"
  by (simp_all add: build_list_of_package_files_def build_list_of_installed_files_def
      SortedVector_def)

text \<open>
  Claim C7, as amended. The conflict scan enumerates every path below the sandbox,
  relative to the sandbox root and with no exclusion: a path \<^verbatim>\<open>CONTROL\<close> or
  \<^verbatim>\<open>BUILD_INFO\<close> that exists in the sandbox is in the list like any other. The
  intersection holds exactly the entries of that list that the list of installed files
  holds too, so these two files are reported as conflicts exactly when an installed
  listfile names them.
\<close>

theorem build_list_of_package_files_all:
  "set (build_list_of_package_files fs d) = drop (length d + 1) ` set (get_files_recursive fs d) \<and>
   set (set_intersection (build_list_of_package_files fs d)
          (build_list_of_installed_files pf t))
     = set (build_list_of_package_files fs d) \<inter> set (build_list_of_installed_files pf t) \<and>
   (\<forall>entry. entry \<noteq> [] \<and> fs_exists fs (d @ ''/'' @ entry) \<longrightarrow>
      entry \<in> set (build_list_of_package_files fs d))"
proof -
  have "entry \<in> set (build_list_of_package_files fs d)"
    if "entry \<noteq> []" and "fs_exists fs (d @ ''/'' @ entry)" for entry
  proof -
    from that(2) have "d @ ''/'' @ entry \<in> fst ` set fs"
      by (auto simp: fs_exists_def dest: map_of_SomeD intro: rev_image_eqI)
    with under_append [OF that(1), of d] have "d @ ''/'' @ entry \<in> set (get_files_recursive fs d)"
      by (simp add: get_files_recursive_def)
    then have "drop (length d + 1) (d @ ''/'' @ entry) \<in> set (build_list_of_package_files fs d)"
      unfolding set_build_list_of_package_files by (rule imageI)
    then show ?thesis by simp
  qed
  then show ?thesis
    using set_intersection_sorted [OF sorted_build_lists(1) [of fs d] sorted_build_lists(2) [of pf t]]
    by (simp add: set_build_list_of_package_files)
qed

theorem build_list_of_package_files_all_witness:
  "''CONTROL'' \<noteq> [] \<and> fs_exists example_disk (''r/packages/q_x64'' @ ''/'' @ ''CONTROL'') \<and>
   ''CONTROL'' \<in> set (build_list_of_package_files example_disk ''r/packages/q_x64'')"
proof -
  have ex: "fs_exists example_disk (''r/packages/q_x64'' @ ''/'' @ ''CONTROL'')"
    by (simp add: fs_exists_def example_disk_def)
  have ne: "''CONTROL'' \<noteq> []"
    by simp
  from build_list_of_package_files_all [of example_disk "''r/packages/q_x64''"]
  have "\<forall>entry. entry \<noteq> [] \<and> fs_exists example_disk (''r/packages/q_x64'' @ ''/'' @ entry) \<longrightarrow>
      entry \<in> set (build_list_of_package_files example_disk ''r/packages/q_x64'')"
    by blast
  with ex ne show ?thesis
    by blast
qed

text \<open>
  Claim C7 as the spec has it: the scan excludes \<^verbatim>\<open>CONTROL\<close> and \<^verbatim>\<open>BUILD_INFO\<close>, which
  therefore never take part in the intersection. The list for the sandbox of \<open>q\<close> holds
  both, and against an installed list that names \<^verbatim>\<open>x64/CONTROL\<close> the intersection is
  \<^verbatim>\<open>CONTROL\<close>.
\<close>

theorem conflict_scan_control_counterexample:
  "build_list_of_package_files example_disk ''r/packages/q_x64''
     = [''BUILD_INFO'', ''CONTROL'', ''bin'', ''bin/tool.exe''] \<and>
   set_intersection (build_list_of_package_files example_disk ''r/packages/q_x64'')
     (build_list_of_installed_files
        [(installed_record (example_paragraph ''p''), [''x64/CONTROL''])]
        ''x64'')
     = [''CONTROL'']"
  by code_simp

subsection \<open>The copy step\<close>


text \<open>
  Claim C6, as amended. In the copy step a regular file whose target path already holds
  a regular file is not an error: a warning is printed, the target is overwritten with the
  contents of the sandbox's file, its line is added to the listfile lines and the loop
  goes on. A directory whose target is a directory already leaves it as it is, without
  any message.
\<close>

theorem install_file_overwrites:
  "(map_of (disk w) file = Some (File contents) \<and> \<not> is_control_file_name (filename file) \<and>
    length source_dir + 1 \<le> length file \<and>
    map_of (disk w) (path_append destination (drop (length source_dir + 1) file)) = Some (File old)
    \<longrightarrow>
      install_file source_dir destination destination_subdirectory file output w
      = Return (output @ [destination_subdirectory @ ''/'' @ drop (length source_dir + 1) file])
          (w\<lparr>disk := AList.update (path_append destination (drop (length source_dir + 1) file))
                       (File contents) (disk w),
             console := console w
               @ [Already_present (path_append destination (drop (length source_dir + 1) file))]\<rparr>)) \<and>
   (map_of (disk w) file = Some Dir \<and> length source_dir + 1 \<le> length file \<and>
    map_of (disk w) (path_append destination (drop (length source_dir + 1) file)) = Some Dir
    \<longrightarrow>
      install_file source_dir destination destination_subdirectory file output w
      = Return (output @ [destination_subdirectory @ ''/'' @ drop (length source_dir + 1) file @ ''/''])
          w)"
  by (simp add: install_file_def fs_status_def is_regular_file_def is_directory_def
      copy_file_overwrite_existing_def create_directory_def fs_exists_def Let_def)

theorem install_file_overwrites_witness:
  "install_file ''r/packages/q_x64'' ''r/installed/x64'' ''x64'' ''r/packages/q_x64/bin/tool.exe''
     [''x64/''] example_world
   = Return [''x64/'', ''x64/bin/tool.exe'']
       (example_world\<lparr>disk := AList.update ''r/installed/x64/bin/tool.exe'' (File ''tool of q'')
                                  (disk example_world),
                      console := [Already_present ''r/installed/x64/bin/tool.exe'']\<rparr>) \<and>
   install_file ''r/packages/q_x64'' ''r/installed/x64'' ''x64'' ''r/packages/q_x64/bin''
     [''x64/''] example_world
   = Return [''x64/'', ''x64/bin/''] example_world"
proof -
  have src: "map_of (disk example_world) ''r/packages/q_x64/bin/tool.exe'' = Some (File ''tool of q'')"
    and target: "map_of (disk example_world)
                   (path_append ''r/installed/x64'' (drop (length ''r/packages/q_x64'' + 1)
                      ''r/packages/q_x64/bin/tool.exe'')) = Some (File ''tool of p'')"
    and name: "\<not> is_control_file_name (filename ''r/packages/q_x64/bin/tool.exe'')"
    and dir1: "map_of (disk example_world) ''r/packages/q_x64/bin'' = Some Dir"
    and dir2: "map_of (disk example_world)
                   (path_append ''r/installed/x64'' (drop (length ''r/packages/q_x64'' + 1)
                      ''r/packages/q_x64/bin'')) = Some Dir"
    by code_simp+
  show ?thesis
    using src target name dir1 dir2
      install_file_overwrites [of example_world "''r/packages/q_x64/bin/tool.exe''" "''tool of q''"
        "''r/packages/q_x64''" "''r/installed/x64''" "''tool of p''" "''x64''" "[''x64/'']"]
      install_file_overwrites [of example_world "''r/packages/q_x64/bin''" "''tool of q''"
        "''r/packages/q_x64''" "''r/installed/x64''" "''tool of p''" "''x64''" "[''x64/'']"]
    by (simp add: path_append_def example_world_def)
qed

text \<open>
  Claim C6 as the spec has it: a regular file that the copy step finds at a target path
  is a fatal error. With no installed record that lists \<^verbatim>\<open>bin/tool.exe\<close> the conflict
  scan passes, the copy step meets the file in the prefix, and the install returns
  \<^verbatim>\<open>SUCCESS\<close> with the file overwritten and a warning printed.
\<close>

theorem copy_collision_counterexample:
  "install_package (listfile_reader example_paths) example_paths (example_bcf ''q'') []
     example_world
   = Return (SUCCESS, [installed_record (example_paragraph ''q'')])
      \<lparr>disk = AList.update ''r/installed/vcpkg/info/q_1_x64.list''
                (File (lines_contents [''x64/'', ''x64/bin/'', ''x64/bin/tool.exe'']))
                (AList.update ''r/installed/x64/bin/tool.exe'' (File ''tool of q'') example_disk),
       updates = [half_installed (example_paragraph ''q''),
                  installed_record (example_paragraph ''q'')],
       console = [Already_present ''r/installed/x64/bin/tool.exe''], executed = []\<rparr>"
  by code_simp

subsection \<open>Status records, the copy loop and the listfile\<close>

lemma has_key_same_key:
  "same_key r p \<Longrightarrow> has_key n t f r \<longleftrightarrow> has_key n t f p"
  by (auto simp: same_key_def has_key_def)

lemma find_status_insert:
  "find_status (insert_status r db) n t f
     = (if has_key n t f r then Some r else find_status db n t f)"
proof (induction db)
  case Nil
  then show ?case by (simp add: find_status_def)
next
  case (Cons p ps)
  then show ?case
    using has_key_same_key [of r p n t f]
    by (auto simp: find_status_def same_key_def has_key_def)
qed

lemma record_paragraphs_eq:
  "record_paragraphs rs db w = (fold insert_status rs db, w\<lparr>updates := updates w @ rs\<rparr>)"
  by (induction rs arbitrary: db w) (simp_all add: write_update_def)

lemma find_status_fold_keep:
  "find_status db n t f = Some r \<Longrightarrow> P r \<Longrightarrow> \<forall>r\<in>set rs. P r \<Longrightarrow>
     \<exists>r'. find_status (fold insert_status rs db) n t f = Some r' \<and> P r'"
proof (induction rs arbitrary: db r)
  case Nil
  then show ?case by simp
next
  case (Cons a rs)
  have "\<exists>r1. find_status (insert_status a db) n t f = Some r1 \<and> P r1"
    using Cons.prems by (simp add: find_status_insert)
  then obtain r1 where "find_status (insert_status a db) n t f = Some r1" "P r1"
    by blast
  moreover from Cons.prems have "\<forall>r\<in>set rs. P r" by simp
  ultimately show ?case
    using Cons.IH [of "insert_status a db" r1] by simp
qed

lemma find_status_fold:
  "\<forall>r\<in>set rs. P r \<Longrightarrow> r0 \<in> set rs \<Longrightarrow> has_key n t f r0 \<Longrightarrow>
     \<exists>r. find_status (fold insert_status rs db) n t f = Some r \<and> P r"
proof (induction rs arbitrary: db)
  case Nil
  then show ?case by simp
next
  case (Cons r rs)
  show ?case
  proof (cases "r0 \<in> set rs")
    case True
    with Cons show ?thesis by simp
  next
    case False
    with Cons.prems have "r0 = r" by simp
    with Cons.prems have "find_status (insert_status r db) n t f = Some r" "P r" "\<forall>r\<in>set rs. P r"
      by (simp_all add: find_status_insert)
    from find_status_fold_keep [OF this] show ?thesis by simp
  qed
qed

lemma install_file_updates:
  "updates (world_of (install_file s d sub file out w)) = updates w"
  by (auto simp: install_file_def Let_def split: option.splits prod.splits)

lemma install_files_updates:
  "updates (world_of (install_files s d sub files out w)) = updates w"
proof (induction files arbitrary: out w)
  case Nil
  then show ?case by simp
next
  case (Cons x xs)
  show ?case
  proof (cases "install_file s d sub x out w")
    case (Exit e w')
    with install_file_updates [of s d sub x out w] show ?thesis by simp
  next
    case (Return out' w')
    with install_file_updates [of s d sub x out w] Cons.IH [of out' w'] show ?thesis by simp
  qed
qed

lemma create_install_directories_updates:
  "updates (world_of (create_install_directories s dd w)) = updates w"
  by (auto simp: create_install_directories_def Let_def split: prod.splits bool.splits)

lemma copy_interrupted_updates:
  "updates (copy_interrupted s dd k w) = updates w"
proof (cases "create_install_directories s dd w")
  case (Exit e w0)
  with create_install_directories_updates [of s dd w] show ?thesis
    by (simp add: copy_interrupted_def)
next
  case (Return u w0)
  with create_install_directories_updates [of s dd w]
    install_files_updates [of s "m_destination dd" "m_destination_subdirectory dd" _ _ w0]
  show ?thesis
    by (simp add: copy_interrupted_def)
qed

lemma install_files_and_write_listfile_updates:
  "updates (world_of (install_files_and_write_listfile s dd w)) = updates w"
proof (cases "create_install_directories s dd w")
  case (Exit e w0)
  with create_install_directories_updates [of s dd w] show ?thesis
    by (simp add: install_files_and_write_listfile_def)
next
  case (Return u w0)
  let ?run = "install_files s (m_destination dd) (m_destination_subdirectory dd)
                (get_files_recursive (disk w0) s) [m_destination_subdirectory dd @ ''/''] w0"
  from Return create_install_directories_updates [of s dd w] have "updates w0 = updates w"
    by simp
  with install_files_updates [of s "m_destination dd" "m_destination_subdirectory dd"
      "get_files_recursive (disk w0) s" "[m_destination_subdirectory dd @ ''/'']" w0]
  have "updates (world_of ?run) = updates w" by simp
  with Return show ?thesis
    by (cases ?run) (simp_all add: install_files_and_write_listfile_def)
qed


























lemma has_key_half_installed:
  "has_key (m_name (spec p)) (m_triplet (spec p)) (feature p) (half_installed p)"
  "has_key (m_name (spec p)) (m_triplet (spec p)) (feature p) (installed_record p)"
  by (simp_all add: has_key_def half_installed_def installed_record_def)

lemma find_status_recorded:
  assumes "p \<in> set ps"
  shows "\<exists>r. find_status (fold insert_status (map half_installed ps) db)
               (m_name (spec p)) (m_triplet (spec p)) (feature p) = Some r \<and>
             want r = INSTALL \<and> state r = HALF_INSTALLED"
    and "\<exists>r. find_status (fold insert_status (map installed_record ps) db)
               (m_name (spec p)) (m_triplet (spec p)) (feature p) = Some r \<and>
             want r = INSTALL \<and> state r = INSTALLED"
proof -
  have "\<forall>r\<in>set (map half_installed ps). want r = INSTALL \<and> state r = HALF_INSTALLED"
    by (simp add: half_installed_def)
  moreover from assms have "half_installed p \<in> set (map half_installed ps)"
    by simp
  ultimately show "\<exists>r. find_status (fold insert_status (map half_installed ps) db)
               (m_name (spec p)) (m_triplet (spec p)) (feature p) = Some r \<and>
             want r = INSTALL \<and> state r = HALF_INSTALLED"
    using has_key_half_installed(1) [of p] by (rule find_status_fold)
next
  have "\<forall>r\<in>set (map installed_record ps). want r = INSTALL \<and> state r = INSTALLED"
    by (simp add: installed_record_def)
  moreover from assms have "installed_record p \<in> set (map installed_record ps)"
    by simp
  ultimately show "\<exists>r. find_status (fold insert_status (map installed_record ps) db)
               (m_name (spec p)) (m_triplet (spec p)) (feature p) = Some r \<and>
             want r = INSTALL \<and> state r = INSTALLED"
    using has_key_half_installed(2) [of p] by (rule find_status_fold)
qed

text \<open>
  Claim C4. On the path without conflicts the \<^verbatim>\<open>HALF_INSTALLED\<close> records (wanted
  \<^verbatim>\<open>INSTALL\<close>) of the core paragraph and of every feature paragraph are appended to the
  journal and put into the database before the copy step starts, on a file system that is
  still the one \<^verbatim>\<open>install_package\<close> was called with. The copy step, interrupted after any
  number of rounds or ended by a fatal exit, leaves the journal with exactly these records
  appended, so that a database rebuilt from any stored status by applying the journal in
  order has each of them as the record of its key. When the copy step and the listfile
  are done, the same records are appended
  once more with state \<^verbatim>\<open>INSTALLED\<close> and replace the former in the database, and the
  result is \<^verbatim>\<open>SUCCESS\<close>.
\<close>

theorem install_package_status_order:
  assumes no_conflict: "set_intersection
             (build_list_of_package_files (disk w) (package_dir paths (spec (core_paragraph bcf))))
             (build_list_of_installed_files (get_installed_files (disk w) status_db)
                (m_triplet (spec (core_paragraph bcf)))) = []"
    and ps: "ps = core_paragraph bcf # features bcf"
    and half: "half = write_half_installed bcf status_db w"
    and source: "source_dir = package_dir paths (spec (core_paragraph bcf))"
    and dest: "install_dir = from_destination_root (installed paths)
                 (m_triplet (spec (core_paragraph bcf))) (listfile_path paths (core_paragraph bcf))"
  shows "disk (snd half) = disk w \<and>
     updates (snd half) = updates w @ map half_installed ps \<and>
     (\<forall>p\<in>set ps. \<exists>r. find_status (fst half) (m_name (spec p)) (m_triplet (spec p)) (feature p)
                          = Some r \<and> want r = INSTALL \<and> state r = HALF_INSTALLED) \<and>
     (\<forall>k. updates (copy_interrupted source_dir install_dir k (snd half))
            = updates w @ map half_installed ps) \<and>
     (\<forall>k stored. \<forall>p\<in>set ps.
        \<exists>r. find_status
               (fold insert_status (updates (copy_interrupted source_dir install_dir k (snd half)))
                  stored)
               (m_name (spec p)) (m_triplet (spec p)) (feature p) = Some r \<and>
            want r = INSTALL \<and> state r = HALF_INSTALLED) \<and>
     (case install_package get_installed_files paths bcf status_db w of
        Exit e w' \<Rightarrow>
          install_files_and_write_listfile source_dir install_dir (snd half) = Exit e w' \<and>
          updates w' = updates w @ map half_installed ps
      | Return (result, status_db') w' \<Rightarrow>
          result = SUCCESS \<and>
          (\<exists>w2. install_files_and_write_listfile source_dir install_dir (snd half) = Return () w2 \<and>
                disk w' = disk w2) \<and>
          updates w' = updates w @ map half_installed ps @ map installed_record ps \<and>
          (\<forall>p\<in>set ps. \<exists>r. find_status status_db' (m_name (spec p)) (m_triplet (spec p))
                                (feature p) = Some r \<and> want r = INSTALL \<and> state r = INSTALLED))"
proof -
  let ?halfs = "map half_installed ps" and ?insts = "map installed_record ps"
  let ?w1 = "w\<lparr>updates := updates w @ ?halfs\<rparr>"
  let ?db1 = "fold insert_status ?halfs status_db"
  let ?copy = "install_files_and_write_listfile source_dir install_dir ?w1"
  have h: "half = (?db1, ?w1)"
    unfolding half write_half_installed_def ps record_paragraphs_eq ..
  have a: "disk (snd half) = disk w" and b: "updates (snd half) = updates w @ ?halfs"
    unfolding h by simp_all
  have c: "\<forall>p\<in>set ps. \<exists>r. find_status (fst half) (m_name (spec p)) (m_triplet (spec p)) (feature p)
                          = Some r \<and> want r = INSTALL \<and> state r = HALF_INSTALLED"
    unfolding h using find_status_recorded(1) [of _ ps status_db] by simp
  have d: "\<forall>k. updates (copy_interrupted source_dir install_dir k (snd half)) = updates w @ ?halfs"
    by (simp add: copy_interrupted_updates b)
  have d': "\<forall>k stored. \<forall>p\<in>set ps.
        \<exists>r. find_status
               (fold insert_status (updates (copy_interrupted source_dir install_dir k (snd half)))
                  stored)
               (m_name (spec p)) (m_triplet (spec p)) (feature p) = Some r \<and>
            want r = INSTALL \<and> state r = HALF_INSTALLED"
    using find_status_recorded(1) [of _ ps] by (simp add: d)
  have copy_updates: "updates (world_of ?copy) = updates w @ ?halfs"
    unfolding install_files_and_write_listfile_updates by simp
  have run: "install_package get_installed_files paths bcf status_db w =
      (case ?copy of
         Exit e w2 \<Rightarrow> Exit e w2
       | Return u w2 \<Rightarrow>
           Return (SUCCESS, fold insert_status ?insts ?db1) (w2\<lparr>updates := updates w2 @ ?insts\<rparr>))"
    using no_conflict
    unfolding install_package_def Let_def write_half_installed_def write_installed_def
      record_paragraphs_eq ps source dest
    by (simp split: outcome.splits)
  have e: "case install_package get_installed_files paths bcf status_db w of
        Exit e w' \<Rightarrow>
          install_files_and_write_listfile source_dir install_dir (snd half) = Exit e w' \<and>
          updates w' = updates w @ map half_installed ps
      | Return (result, status_db') w' \<Rightarrow>
          result = SUCCESS \<and>
          (\<exists>w2. install_files_and_write_listfile source_dir install_dir (snd half) = Return () w2 \<and>
                disk w' = disk w2) \<and>
          updates w' = updates w @ map half_installed ps @ map installed_record ps \<and>
          (\<forall>p\<in>set ps. \<exists>r. find_status status_db' (m_name (spec p)) (m_triplet (spec p))
                                (feature p) = Some r \<and> want r = INSTALL \<and> state r = INSTALLED)"
  proof (cases ?copy)
    case (Exit e w2)
    with copy_updates show ?thesis
      unfolding run h by simp
  next
    case (Return u w2)
    with copy_updates find_status_recorded(2) [of _ ps ?db1] show ?thesis
      unfolding run h by simp
  qed
  from a b c d d' e show ?thesis
    by blast
qed

lemma example_feature_install:
  "set_intersection
     (build_list_of_package_files (disk example_world)
        (package_dir example_paths (spec (core_paragraph example_feature_bcf))))
     (build_list_of_installed_files (listfile_reader example_paths (disk example_world) [])
        (m_triplet (spec (core_paragraph example_feature_bcf)))) = []"
  "install_package (listfile_reader example_paths) example_paths example_feature_bcf []
     example_world
   = Return (SUCCESS, map installed_record (core_paragraph example_feature_bcf # features example_feature_bcf))
      \<lparr>disk = AList.update ''r/installed/vcpkg/info/q_1_x64.list''
                (File (lines_contents [''x64/'', ''x64/bin/'', ''x64/bin/tool.exe'']))
                (AList.update ''r/installed/x64/bin/tool.exe'' (File ''tool of q'') example_disk),
       updates = map half_installed (core_paragraph example_feature_bcf # features example_feature_bcf)
                 @ map installed_record (core_paragraph example_feature_bcf # features example_feature_bcf),
       console = [Already_present ''r/installed/x64/bin/tool.exe''], executed = []\<rparr>"
  by code_simp+

theorem install_package_status_order_witness:
  "set_intersection
     (build_list_of_package_files (disk example_world)
        (package_dir example_paths (spec (core_paragraph example_feature_bcf))))
     (build_list_of_installed_files (listfile_reader example_paths (disk example_world) [])
        (m_triplet (spec (core_paragraph example_feature_bcf)))) = [] \<and>
   updates (copy_interrupted (package_dir example_paths (spec (core_paragraph example_feature_bcf)))
              (from_destination_root (installed example_paths)
                 (m_triplet (spec (core_paragraph example_feature_bcf)))
                 (listfile_path example_paths (core_paragraph example_feature_bcf)))
              2 (snd (write_half_installed example_feature_bcf [] example_world)))
     = [half_installed (example_paragraph ''q''),
        half_installed ((example_paragraph ''q'')\<lparr>feature := ''tools''\<rparr>)] \<and>
   (\<exists>r. find_status (fst (write_half_installed example_feature_bcf [] example_world))
          ''q'' ''x64'' ''tools'' = Some r \<and> state r = HALF_INSTALLED)"
proof -
  note order = install_package_status_order
    [where w = example_world and paths = example_paths and bcf = example_feature_bcf
       and get_installed_files = "listfile_reader example_paths" and status_db = "[]",
     OF example_feature_install(1) refl refl refl refl]
  have p: "(example_paragraph ''q'')\<lparr>feature := ''tools''\<rparr>
           \<in> set (core_paragraph example_feature_bcf # features example_feature_bcf)"
    by (simp add: example_feature_bcf_def)
  from order have "\<forall>p\<in>set (core_paragraph example_feature_bcf # features example_feature_bcf).
      \<exists>r. find_status (fst (write_half_installed example_feature_bcf [] example_world))
             (m_name (spec p)) (m_triplet (spec p)) (feature p) = Some r \<and>
           want r = INSTALL \<and> state r = HALF_INSTALLED"
    by blast
  with p have "\<exists>r. find_status (fst (write_half_installed example_feature_bcf [] example_world))
          ''q'' ''x64'' ''tools'' = Some r \<and> state r = HALF_INSTALLED"
    by (fastforce simp: example_paragraph_def)
  moreover from order have "updates (copy_interrupted
              (package_dir example_paths (spec (core_paragraph example_feature_bcf)))
              (from_destination_root (installed example_paths)
                 (m_triplet (spec (core_paragraph example_feature_bcf)))
                 (listfile_path example_paths (core_paragraph example_feature_bcf)))
              2 (snd (write_half_installed example_feature_bcf [] example_world)))
     = updates example_world
       @ map half_installed (core_paragraph example_feature_bcf # features example_feature_bcf)"
    by blast
  ultimately show ?thesis
    using example_feature_install(1)
    by (simp add: example_world_def example_feature_bcf_def)
qed

section \<open>Properties of the build driver\<close>

lemma missing_specs_of_valid:
  "\<forall>dep\<in>set (missing_dependencies status_db t deps). is_identifier dep \<Longrightarrow>
     missing_specs_of status_db t deps acc
     = Inr (acc @ map (\<lambda>dep. \<lparr>m_name = dep, m_triplet = t\<rparr>)
                    (missing_dependencies status_db t deps))"
  by (induction deps arbitrary: acc)
     (simp_all add: missing_dependencies_def from_name_and_triplet_def)

lemma missing_specs_of_none:
  "missing_specs_of status_db t deps acc = Inr [] \<Longrightarrow> missing_dependencies status_db t deps = []"
proof (induction deps arbitrary: acc)
  case Nil
  then show ?case by (simp add: missing_dependencies_def)
next
  case (Cons dep deps)
  have grows: "missing_specs_of status_db t ds a = Inr r \<Longrightarrow> length a \<le> length r" for ds a r
  proof (induction ds arbitrary: a)
    case Nil
    then show ?case by simp
  next
    case (Cons d ds)
    show ?case
    proof (cases "find_installed status_db d t = None")
      case True
      with Cons.prems obtain x where "missing_specs_of status_db t ds (a @ [x]) = Inr r"
        by (auto split: option.splits)
      from Cons.IH [OF this] show ?thesis by simp
    next
      case False
      with Cons show ?thesis by simp
    qed
  qed
  show ?case
  proof (cases "find_installed status_db dep t = None")
    case True
    with Cons.prems obtain s where "missing_specs_of status_db t deps (acc @ [s]) = Inr []"
      by (auto split: option.splits)
    from grows [OF this] show ?thesis by simp
  next
    case False
    with Cons show ?thesis
      by (simp add: missing_dependencies_def)
  qed
qed

lemma build_package_missing:
  assumes "missing_dependencies status_db (triplet config)
             (filter_dependencies ext (source_depends (src config)) (triplet config)) \<noteq> []"
  shows "world_of (build_package ext paths config status_db w) = w"
proof (cases "from_name_and_triplet (name (src config)) (triplet config)")
  case None
  then show ?thesis by (simp add: build_package_def)
next
  case (Some s)
  let ?deps = "filter_dependencies ext (source_depends (src config)) (triplet config)"
  show ?thesis
  proof (cases "missing_specs_of status_db (triplet config) ?deps []")
    case (Inl e)
    with Some show ?thesis by (simp add: build_package_def)
  next
    case (Inr missing_specs)
    with assms missing_specs_of_none [of status_db "triplet config" ?deps "[]"]
    have "missing_specs \<noteq> []" by auto
    with Some Inr show ?thesis by (simp add: build_package_def)
  qed
qed

text \<open>
  Claim C2, as amended. With a valid port name: when some dependency named in the
  port's \<^verbatim>\<open>depends\<close> list (after filtering by the triplet) is not found installed, and the
  missing names are valid, \<^verbatim>\<open>build_package\<close> returns
  \<^verbatim>\<open>CASCADED_DUE_TO_MISSING_DEPENDENCIES\<close> with the specs of the missing dependencies, in a
  world that is the one it was called in: no command was executed. Whatever the names
  are, a missing dependency leaves the world as it was. When every listed dependency is
  installed, \<^verbatim>\<open>build_package\<close> goes on to prepare the command, run the child process and
  classify its result. The dependencies of the dependencies are not looked at.
\<close>

theorem build_package_missing_dependencies:
  assumes "from_name_and_triplet (name (src config)) (triplet config) = Some s"
    and "missing = missing_dependencies status_db (triplet config)
                     (filter_dependencies ext (source_depends (src config)) (triplet config))"
  shows "(missing \<noteq> [] \<longrightarrow> world_of (build_package ext paths config status_db w) = w) \<and>
     (missing \<noteq> [] \<and> (\<forall>dep\<in>set missing. is_identifier dep) \<longrightarrow>
        build_package ext paths config status_db w
        = Return \<lparr>code = CASCADED_DUE_TO_MISSING_DEPENDENCIES,
                  unmet_dependencies =
                    map (\<lambda>dep. \<lparr>m_name = dep, m_triplet = triplet config\<rparr>) missing\<rparr> w) \<and>
     (missing = [] \<longrightarrow>
        build_package ext paths config status_db w
        = (case build_command ext paths config w of
             Exit e w1 \<Rightarrow> Exit e w1
           | Return (command, pre_build_info) w1 \<Rightarrow>
               build_result ext paths config s pre_build_info
                 (fst (cmd_execute_clean ext command w1))
                 (snd (cmd_execute_clean ext command w1))))"
proof -
  let ?deps = "filter_dependencies ext (source_depends (src config)) (triplet config)"
  have a: "missing \<noteq> [] \<longrightarrow> world_of (build_package ext paths config status_db w) = w"
    unfolding assms(2) using build_package_missing by blast
  have b: "build_package ext paths config status_db w
        = Return \<lparr>code = CASCADED_DUE_TO_MISSING_DEPENDENCIES,
                  unmet_dependencies =
                    map (\<lambda>dep. \<lparr>m_name = dep, m_triplet = triplet config\<rparr>) missing\<rparr> w"
    if "missing \<noteq> []" and "\<forall>dep\<in>set missing. is_identifier dep"
    using that assms(1) missing_specs_of_valid [of status_db "triplet config" ?deps "[]"]
    unfolding assms(2) by (simp add: build_package_def)
  have c: "build_package ext paths config status_db w
        = (case build_command ext paths config w of
             Exit e w1 \<Rightarrow> Exit e w1
           | Return (command, pre_build_info) w1 \<Rightarrow>
               build_result ext paths config s pre_build_info
                 (fst (cmd_execute_clean ext command w1))
                 (snd (cmd_execute_clean ext command w1)))"
    if "missing = []"
    using that assms(1) missing_specs_of_valid [of status_db "triplet config" ?deps "[]"]
    unfolding assms(2)
    by (simp add: build_package_def split: outcome.splits prod.splits)
  from a b c show ?thesis by blast
qed

lemma example_missing:
  "from_name_and_triplet (name (src (example_config ''b'' [''a'', ''c''])))
     (triplet (example_config ''b'' [''a'', ''c''])) = Some \<lparr>m_name = ''b'', m_triplet = ''x64''\<rparr>"
  "missing_dependencies example_half_db (triplet (example_config ''b'' [''a'', ''c'']))
     (filter_dependencies (example_ext 0 0)
        (source_depends (src (example_config ''b'' [''a'', ''c''])))
        (triplet (example_config ''b'' [''a'', ''c'']))) = [''c'']"
  "is_identifier ''c''"
  "triplet (example_config ''b'' [''a'', ''c'']) = ''x64''"
  by code_simp+

theorem build_package_missing_dependencies_witness:
  "build_package (example_ext 0 0) example_paths (example_config ''b'' [''a'', ''c''])
     example_half_db example_world
   = Return \<lparr>code = CASCADED_DUE_TO_MISSING_DEPENDENCIES,
             unmet_dependencies = [\<lparr>m_name = ''c'', m_triplet = ''x64''\<rparr>]\<rparr> example_world"
  using build_package_missing_dependencies
    [where ext = "example_ext 0 0" and paths = example_paths and status_db = example_half_db
       and w = example_world, OF example_missing(1) example_missing(2) [symmetric]]
    example_missing(3,4)
  by simp

text \<open>
  Claim C2 as the spec has it speaks of the transitive dependencies. In the example
  database \<open>a\<close> is installed and depends on \<open>c\<close>, which is half installed: \<open>c\<close> is a
  transitive dependency of the port \<open>b\<close> that is not installed, and \<^verbatim>\<open>build_package\<close>
  for \<open>b\<close> runs the build and returns \<^verbatim>\<open>SUCCEEDED\<close>.
\<close>

theorem transitive_dependency_counterexample:
  "transitive_dependency example_half_db ''x64''
     (filter_dependencies (example_ext 0 0) (source_depends (src (example_config ''b'' [''a''])))
        ''x64'') ''c'' \<and>
   find_installed example_half_db ''c'' ''x64'' = None \<and>
   (case build_package (example_ext 0 0) example_paths (example_config ''b'' [''a''])
           example_half_db example_world of
      Exit e w' \<Rightarrow> False
    | Return result w' \<Rightarrow> code result = SUCCEEDED \<and> length (executed w') = 2)"
proof -
  have deps: "filter_dependencies (example_ext 0 0)
                (source_depends (src (example_config ''b'' [''a'']))) ''x64'' = [''a'']"
    by code_simp
  have a: "find_status example_half_db ''a'' ''x64'' []
           = Some (installed_record ((example_paragraph ''a'')\<lparr>depends := [''c'']\<rparr>))"
    by code_simp
  have "transitive_dependency example_half_db ''x64'' [''a''] ''a''"
    by (rule transitive_dependency.listed) simp
  from transitive_dependency.through [OF this a]
  have "transitive_dependency example_half_db ''x64'' [''a''] ''c''"
    by (simp add: installed_record_def)
  moreover have "find_installed example_half_db ''c'' ''x64'' = None"
    by code_simp
  moreover have "case build_package (example_ext 0 0) example_paths (example_config ''b'' [''a''])
           example_half_db example_world of
      Exit e w' \<Rightarrow> False
    | Return result w' \<Rightarrow> code result = SUCCEEDED \<and> length (executed w') = 2"
    by code_simp
  ultimately show ?thesis
    unfolding deps by blast
qed

lemma core_add_feature_paragraphs:
  "core_paragraph (add_feature_paragraphs ext control t feats bcf) = core_paragraph bcf"
proof -
  have inner: "core_paragraph (fold (\<lambda>f_pgh bcf''.
                     if feature_name f_pgh = feat
                     then create_binary_feature_control_file ext spgh f_pgh t bcf''
                     else bcf'') fps b) = core_paragraph b" for feat spgh fps b
    by (induction fps arbitrary: b) (simp_all add: create_binary_feature_control_file_def)
  show ?thesis
    unfolding add_feature_paragraphs_def
    by (induction feats arbitrary: bcf) (simp_all add: inner)
qed

lemma features_add_feature_paragraphs:
  "features (add_feature_paragraphs ext control t feats bcf)
   = features bcf
     @ concat (map (\<lambda>feat. map (\<lambda>f_pgh. BinaryParagraph_of_feature ext
                                         (source_core_paragraph control) f_pgh t)
                           (filter (\<lambda>f_pgh. feature_name f_pgh = feat)
                              (feature_paragraphs control)))
                 feats)"
proof -
  have inner: "features (fold (\<lambda>f_pgh bcf''.
                     if feature_name f_pgh = feat
                     then create_binary_feature_control_file ext spgh f_pgh t bcf''
                     else bcf'') fps b)
               = features b @ map (\<lambda>f_pgh. BinaryParagraph_of_feature ext spgh f_pgh t)
                                (filter (\<lambda>f_pgh. feature_name f_pgh = feat) fps)"
    for feat spgh fps b
    by (induction fps arbitrary: b) (simp_all add: create_binary_feature_control_file_def)
  show ?thesis
    unfolding add_feature_paragraphs_def
    by (induction feats arbitrary: bcf) (simp_all add: inner)
qed

lemma write_binary_control_file_eq:
  "write_binary_control_file ext paths bcf w
   = w\<lparr>disk := write_contents (disk w)
                   (path_append (package_dir paths (spec (core_paragraph bcf))) ''CONTROL'')
                   (serialized ext (core_paragraph bcf)
                    @ concat (map (\<lambda>f. CHR 0x0A # serialized ext f) (features bcf)))\<rparr>"
  by (simp add: write_binary_control_file_def control_file_text_def package_dir_def)

lemma spec_create_binary_control_file:
  "spec (core_paragraph (create_binary_control_file ext spgh t build_info))
   = \<lparr>m_name = name spgh, m_triplet = t\<rparr>"
  by (simp add: create_binary_control_file_def BinaryParagraph_of_source_def Let_def
      split: option.splits)

lemma create_binary_control_file_eq:
  "create_binary_control_file ext spgh t build_info
   = \<lparr>core_paragraph =
        (case version build_info of
           Some p_ver \<Rightarrow> (BinaryParagraph_of_source ext spgh t)\<lparr>binary_version := p_ver\<rparr>
         | None \<Rightarrow> BinaryParagraph_of_source ext spgh t),
      features = []\<rparr>"
  by (simp add: create_binary_control_file_def Let_def)

text \<open>
  Claim C3. Let \<^verbatim>\<open>build_package\<close> reach the child process of the build: the port name is
  valid, no dependency is missing, the command line was prepared in the world \<open>w1\<close>, and
  the child process returned \<open>return_code\<close> and left the world \<open>w2\<close>; and let the control
  file of the port be at hand whenever a feature is asked for. A return code other than 0
  gives \<^verbatim>\<open>BUILD_FAILED\<close> in the world \<open>w2\<close>. With return code 0, a \<^verbatim>\<open>BUILD_INFO\<close> that
  cannot be read ends the process in the world \<open>w2\<close>. With return code 0 and a readable
  \<^verbatim>\<open>BUILD_INFO\<close>: a lint error count other than 0 gives \<^verbatim>\<open>POST_BUILD_CHECKS_FAILED\<close> in
  the world \<open>w2\<close>, to which nothing has been written; the count 0 gives \<^verbatim>\<open>SUCCEEDED\<close> in
  the world that differs from \<open>w2\<close> by the file \<^verbatim>\<open>CONTROL\<close> in the sandbox of the package.
  The text of this file is the serialized core paragraph, which is the binary paragraph
  of the source paragraph with the version of the build information when it has one,
  followed, with feature packages switched on, by a line break and the serialized feature
  paragraph for every requested feature and every feature paragraph of the port of that
  name, in the order of the requested features.
\<close>

theorem build_package_classification:
  assumes "from_name_and_triplet (name (src config)) (triplet config) = Some s"
    and "missing_specs_of status_db (triplet config)
           (filter_dependencies ext (source_depends (src config)) (triplet config)) [] = Inr []"
    and "build_command ext paths config w = Return (command, pre_build_info) w1"
    and "cmd_execute_clean ext command w1 = (return_code, w2)"
    and "scf config = None \<longrightarrow> feature_list config = None \<or> feature_list config = Some []"
  shows "(return_code \<noteq> 0 \<longrightarrow>
            build_package ext paths config status_db w
            = Return \<lparr>code = BUILD_FAILED, unmet_dependencies = []\<rparr> w2) \<and>
     (\<forall>e. return_code = 0 \<and>
          read_build_info (single_paragraph ext (disk w2) (build_info_file_path paths s))
            = Inl e \<longrightarrow>
          build_package ext paths config status_db w = Exit e w2) \<and>
     (\<forall>build_info.
        return_code = 0 \<and>
        read_build_info (single_paragraph ext (disk w2) (build_info_file_path paths s))
          = Inr build_info \<longrightarrow>
          (lint_error_count ext s (disk w2) pre_build_info build_info \<noteq> 0 \<longrightarrow>
             build_package ext paths config status_db w
             = Return \<lparr>code = POST_BUILD_CHECKS_FAILED, unmet_dependencies = []\<rparr> w2) \<and>
          (lint_error_count ext s (disk w2) pre_build_info build_info = 0 \<longrightarrow>
             build_package ext paths config status_db w
             = Return \<lparr>code = SUCCEEDED, unmet_dependencies = []\<rparr>
                 (w2\<lparr>disk :=
                       write_contents (disk w2) (path_append (package_dir paths s) ''CONTROL'')
                         (serialized ext
                            (case version build_info of
                               Some p_ver \<Rightarrow>
                                 (BinaryParagraph_of_source ext (src config) (triplet config))
                                   \<lparr>binary_version := p_ver\<rparr>
                             | None \<Rightarrow>
                                 BinaryParagraph_of_source ext (src config) (triplet config))
                          @ concat
                              (map (\<lambda>f. CHR 0x0A # serialized ext f)
                                 (if feature_packages ext then
                                    (case (feature_list config, scf config) of
                                       (Some feats, Some control) \<Rightarrow>
                                         concat
                                           (map (\<lambda>feat.
                                                   map (\<lambda>f_pgh.
                                                          BinaryParagraph_of_feature ext
                                                            (source_core_paragraph control) f_pgh
                                                            (triplet config))
                                                     (filter (\<lambda>f_pgh. feature_name f_pgh = feat)
                                                        (feature_paragraphs control)))
                                              feats)
                                     | _ \<Rightarrow> [])
                                  else [])))\<rparr>)))"
proof -
  have run: "build_package ext paths config status_db w
             = build_result ext paths config s pre_build_info return_code w2"
    using assms(1-4) by (simp add: build_package_def)
  have s: "s = \<lparr>m_name = name (src config), m_triplet = triplet config\<rparr>"
    using assms(1) by (simp add: from_name_and_triplet_def split: if_splits)
  let ?info = "read_build_info (single_paragraph ext (disk w2) (build_info_file_path paths s))"
  have failed: "return_code \<noteq> 0 \<longrightarrow>
            build_package ext paths config status_db w
            = Return \<lparr>code = BUILD_FAILED, unmet_dependencies = []\<rparr> w2"
    unfolding run by (simp add: build_result_def)
  have unreadable: "build_package ext paths config status_db w = Exit e w2"
    if "return_code = 0" and "?info = Inl e" for e
    unfolding run using that by (simp add: build_result_def)
  have readable: "(lint_error_count ext s (disk w2) pre_build_info build_info \<noteq> 0 \<longrightarrow>
             build_package ext paths config status_db w
             = Return \<lparr>code = POST_BUILD_CHECKS_FAILED, unmet_dependencies = []\<rparr> w2) \<and>
          (lint_error_count ext s (disk w2) pre_build_info build_info = 0 \<longrightarrow>
             build_package ext paths config status_db w
             = Return \<lparr>code = SUCCEEDED, unmet_dependencies = []\<rparr>
                 (w2\<lparr>disk :=
                       write_contents (disk w2) (path_append (package_dir paths s) ''CONTROL'')
                         (serialized ext
                            (case version build_info of
                               Some p_ver \<Rightarrow>
                                 (BinaryParagraph_of_source ext (src config) (triplet config))
                                   \<lparr>binary_version := p_ver\<rparr>
                             | None \<Rightarrow>
                                 BinaryParagraph_of_source ext (src config) (triplet config))
                          @ concat
                              (map (\<lambda>f. CHR 0x0A # serialized ext f)
                                 (if feature_packages ext then
                                    (case (feature_list config, scf config) of
                                       (Some feats, Some control) \<Rightarrow>
                                         concat
                                           (map (\<lambda>feat.
                                                   map (\<lambda>f_pgh.
                                                          BinaryParagraph_of_feature ext
                                                            (source_core_paragraph control) f_pgh
                                                            (triplet config))
                                                     (filter (\<lambda>f_pgh. feature_name f_pgh = feat)
                                                        (feature_paragraphs control)))
                                              feats)
                                     | _ \<Rightarrow> [])
                                  else [])))\<rparr>))"
    (is "?lint \<and> (_ \<longrightarrow> ?written)")
    if rc: "return_code = 0" and bi: "?info = Inr build_info" for build_info
  proof -
    let ?bcf = "create_binary_control_file ext (src config) (triplet config) build_info"
    have sp: "spec (core_paragraph ?bcf) = s"
      unfolding s by (rule spec_create_binary_control_file)
    have core: "core_paragraph ?bcf
                = (case version build_info of
                     Some p_ver \<Rightarrow>
                       (BinaryParagraph_of_source ext (src config) (triplet config))
                         \<lparr>binary_version := p_ver\<rparr>
                   | None \<Rightarrow> BinaryParagraph_of_source ext (src config) (triplet config))"
      and none: "features ?bcf = []"
      by (simp_all add: create_binary_control_file_eq)
    have wr: "write_binary_control_file ext paths b w2
              = w2\<lparr>disk := write_contents (disk w2)
                              (path_append (package_dir paths s) ''CONTROL'')
                              (serialized ext (core_paragraph ?bcf)
                               @ concat (map (\<lambda>f. CHR 0x0A # serialized ext f) (features b)))\<rparr>"
      if "core_paragraph b = core_paragraph ?bcf" for b
      unfolding write_binary_control_file_eq that sp ..
    have lint: ?lint
      unfolding run using rc bi by (simp add: build_result_def Let_def)
    have ok: ?written
      if zero: "lint_error_count ext s (disk w2) pre_build_info build_info = 0"
    proof (cases "feature_packages ext")
      case False
      then have "build_package ext paths config status_db w
                = Return \<lparr>code = SUCCEEDED, unmet_dependencies = []\<rparr>
                    (write_binary_control_file ext paths ?bcf w2)"
        unfolding run using rc bi zero by (simp add: build_result_def Let_def)
      then show ?thesis
        unfolding wr [OF refl] none core using False by simp
    next
      case True
      show ?thesis
      proof (cases "feature_list config")
        case None
        with True have "build_package ext paths config status_db w
                = Return \<lparr>code = SUCCEEDED, unmet_dependencies = []\<rparr>
                    (write_binary_control_file ext paths ?bcf w2)"
          unfolding run using rc bi zero by (simp add: build_result_def Let_def)
        then show ?thesis
          unfolding wr [OF refl] none core using True None by simp
      next
        case (Some feats)
        show ?thesis
        proof (cases "scf config")
          case no: None
          with assms(5) Some have empty: "feats = []"
            by simp
          with True Some no have "build_package ext paths config status_db w
                = Return \<lparr>code = SUCCEEDED, unmet_dependencies = []\<rparr>
                    (write_binary_control_file ext paths ?bcf w2)"
            unfolding run using rc bi zero by (simp add: build_result_def Let_def)
          then show ?thesis
            unfolding wr [OF refl] none core using True Some no by simp
        next
          case control: (Some control)
          let ?b = "add_feature_paragraphs ext control (triplet config) feats ?bcf"
          from True Some control have "build_package ext paths config status_db w
                = Return \<lparr>code = SUCCEEDED, unmet_dependencies = []\<rparr>
                    (write_binary_control_file ext paths ?b w2)"
            unfolding run using rc bi zero by (simp add: build_result_def Let_def)
          then show ?thesis
            unfolding wr [OF core_add_feature_paragraphs] features_add_feature_paragraphs
              none core
            using True Some control by simp
        qed
      qed
    qed
    from lint ok show ?thesis by blast
  qed
  from failed unreadable readable show ?thesis by blast
qed


lemma example_build_reached:
  "from_name_and_triplet (name (src (example_config ''b'' [''a''])))
     (triplet (example_config ''b'' [''a''])) = Some \<lparr>m_name = ''b'', m_triplet = ''x64''\<rparr>"
  "missing_specs_of example_half_db (triplet (example_config ''b'' [''a'']))
     (filter_dependencies (example_ext rc n) (source_depends (src (example_config ''b'' [''a''])))
        (triplet (example_config ''b'' [''a'']))) [] = Inr []"
  "scf (example_config ''b'' [''a'']) = None \<longrightarrow>
     feature_list (example_config ''b'' [''a'']) = None \<or>
     feature_list (example_config ''b'' [''a'']) = Some []"
  by (simp_all add: example_config_def BuildPackageConfig_of_source_def example_source_def
      from_name_and_triplet_def is_identifier_def filter_dependencies_def find_installed_def
      find_status_def example_half_db_def has_key_def installed_record_def example_paragraph_def)

lemma example_feature_build_reached:
  "from_name_and_triplet (name (src example_feature_config)) (triplet example_feature_config)
   = Some \<lparr>m_name = ''b'', m_triplet = ''x64''\<rparr>"
  "missing_specs_of example_half_db (triplet example_feature_config)
     (filter_dependencies example_feature_ext (source_depends (src example_feature_config))
        (triplet example_feature_config)) [] = Inr []"
  "scf example_feature_config = None \<longrightarrow>
     feature_list example_feature_config = None \<or> feature_list example_feature_config = Some []"
  by (simp_all add: example_feature_config_def BuildPackageConfig_of_control_file_def
      example_control_file_def example_source_def
      from_name_and_triplet_def is_identifier_def filter_dependencies_def find_installed_def
      find_status_def example_half_db_def has_key_def installed_record_def example_paragraph_def)

lemma example_unreadable_build_reached:
  "from_name_and_triplet (name (src (example_config ''c'' [])))
     (triplet (example_config ''c'' [])) = Some \<lparr>m_name = ''c'', m_triplet = ''x64''\<rparr>"
  "missing_specs_of example_half_db (triplet (example_config ''c'' []))
     (filter_dependencies example_plan_ext (source_depends (src (example_config ''c'' [])))
        (triplet (example_config ''c'' []))) [] = Inr []"
  "scf (example_config ''c'' []) = None \<longrightarrow>
     feature_list (example_config ''c'' []) = None \<or>
     feature_list (example_config ''c'' []) = Some []"
  by (simp_all add: example_config_def BuildPackageConfig_of_source_def example_source_def
      from_name_and_triplet_def is_identifier_def filter_dependencies_def)

lemma lint_example_ext: "lint_error_count (example_ext rc n) s fs p b = n"
  by (simp add: example_ext_def)

lemma lint_example_feature_ext: "lint_error_count example_feature_ext s fs p b = 0"
  by (simp add: example_feature_ext_def example_ext_def)

lemma map_of_write_contents: "map_of (write_contents fs p text) p = Some (File text)"
  by (simp add: write_contents_def update_conv')

theorem build_package_classification_witness:
  "returned (build_package (example_ext 1 0) example_paths (example_config ''b'' [''a''])
               example_half_db example_world)
     = Some \<lparr>code = BUILD_FAILED, unmet_dependencies = []\<rparr> \<and>
   returned (build_package (example_ext 0 2) example_paths (example_config ''b'' [''a''])
               example_half_db example_world)
     = Some \<lparr>code = POST_BUILD_CHECKS_FAILED, unmet_dependencies = []\<rparr> \<and>
   map_of (disk (world_of (build_package (example_ext 0 2) example_paths
                             (example_config ''b'' [''a'']) example_half_db example_world)))
     ''r/packages/b_x64/CONTROL'' = None \<and>
   returned (build_package example_feature_ext example_paths example_feature_config
               example_half_db example_world)
     = Some \<lparr>code = SUCCEEDED, unmet_dependencies = []\<rparr> \<and>
   map_of (disk (world_of (build_package example_feature_ext example_paths
                             example_feature_config example_half_db example_world)))
     ''r/packages/b_x64/CONTROL''
     = Some (File (''Package: b'' @ [CHR 0x0A] @ ''Package: b'' @ [CHR 0x0A]
                   @ ''Feature: docs'')) \<and>
   (case build_package example_plan_ext example_paths (example_config ''c'' [])
           example_half_db example_world of
      Exit e w' \<Rightarrow> e = Invalid_build_info_file
    | Return result w' \<Rightarrow> False)"
proof -
  let ?config = "example_config ''b'' [''a'']"
  let ?s = "\<lparr>m_name = ''b'', m_triplet = ''x64''\<rparr>"
  let ?B = "\<lambda>ext config. build_command ext example_paths config example_world"
  let ?X = "\<lambda>ext config. cmd_execute_clean ext (fst (the (returned (?B ext config))))
                            (world_of (?B ext config))"
  let ?I = "\<lambda>ext config s. read_build_info (single_paragraph ext (disk (snd (?X ext config)))
                                (build_info_file_path example_paths s))"
  have B: "?B ext config
           = Return (fst (the (returned (?B ext config))), snd (the (returned (?B ext config))))
               (world_of (?B ext config))"
    if "returned (?B ext config) \<noteq> None" for ext config
    using that by (cases "?B ext config") simp_all
  have reached: "returned (?B (example_ext 1 0) ?config) \<noteq> None"
    "returned (?B (example_ext 0 2) ?config) \<noteq> None"
    "returned (?B example_feature_ext example_feature_config) \<noteq> None"
    "returned (?B example_plan_ext (example_config ''c'' [])) \<noteq> None"
    by code_simp+
  have X: "?X ext config = (fst (?X ext config), snd (?X ext config))" for ext config
    by simp
  have rc: "fst (?X (example_ext 1 0) ?config) \<noteq> 0" "fst (?X (example_ext 0 2) ?config) = 0"
    "fst (?X example_feature_ext example_feature_config) = 0"
    "fst (?X example_plan_ext (example_config ''c'' [])) = 0"
    by code_simp+
  have "\<not> isl (?I (example_ext 0 2) ?config ?s)"
    by code_simp
  then obtain bi2 where info2: "?I (example_ext 0 2) ?config ?s = Inr bi2"
    by (cases "?I (example_ext 0 2) ?config ?s") auto
  have "\<not> isl (?I example_feature_ext example_feature_config ?s)"
    by code_simp
  moreover have "version (projr (?I example_feature_ext example_feature_config ?s)) = None"
    by code_simp
  ultimately obtain bi3 where info3: "?I example_feature_ext example_feature_config ?s = Inr bi3"
    and no_version: "version bi3 = None"
    by (cases "?I example_feature_ext example_feature_config ?s") auto
  have "isl (?I example_plan_ext (example_config ''c'' []) \<lparr>m_name = ''c'', m_triplet = ''x64''\<rparr>)"
    "projl (?I example_plan_ext (example_config ''c'' []) \<lparr>m_name = ''c'', m_triplet = ''x64''\<rparr>)
     = Invalid_build_info_file"
    by code_simp+
  then have info4:
    "?I example_plan_ext (example_config ''c'' []) \<lparr>m_name = ''c'', m_triplet = ''x64''\<rparr>
     = Inl Invalid_build_info_file"
    by (metis sum.collapse(1))
  have not_written: "map_of (disk (snd (?X (example_ext 0 2) ?config))) ''r/packages/b_x64/CONTROL''
                     = None"
    by code_simp
  from build_package_classification
    [OF example_build_reached(1) example_build_reached(2) B [OF reached(1)] X
       example_build_reached(3)] rc(1)
  have failed: "returned (build_package (example_ext 1 0) example_paths ?config example_half_db
                    example_world)
        = Some \<lparr>code = BUILD_FAILED, unmet_dependencies = []\<rparr>"
    by simp
  from build_package_classification
    [OF example_build_reached(1) example_build_reached(2) B [OF reached(2)] X
       example_build_reached(3)] rc(2) info2 lint_example_ext [of 0 2]
  have "build_package (example_ext 0 2) example_paths ?config example_half_db example_world
        = Return \<lparr>code = POST_BUILD_CHECKS_FAILED, unmet_dependencies = []\<rparr>
            (snd (?X (example_ext 0 2) ?config))"
    by simp
  with not_written have lint:
    "returned (build_package (example_ext 0 2) example_paths ?config example_half_db
                 example_world)
     = Some \<lparr>code = POST_BUILD_CHECKS_FAILED, unmet_dependencies = []\<rparr>"
    "map_of (disk (world_of (build_package (example_ext 0 2) example_paths ?config
                               example_half_db example_world)))
       ''r/packages/b_x64/CONTROL'' = None"
    by simp_all
  from build_package_classification
    [OF example_feature_build_reached(1) example_feature_build_reached(2) B [OF reached(3)] X
       example_feature_build_reached(3)] rc(3) info3 lint_example_feature_ext
  have "build_package example_feature_ext example_paths example_feature_config example_half_db
          example_world
        = Return \<lparr>code = SUCCEEDED, unmet_dependencies = []\<rparr>
            ((snd (?X example_feature_ext example_feature_config))
               \<lparr>disk := write_contents (disk (snd (?X example_feature_ext example_feature_config)))
                          ''r/packages/b_x64/CONTROL''
                          (''Package: b'' @ [CHR 0x0A] @ ''Package: b'' @ [CHR 0x0A]
                           @ ''Feature: docs'')\<rparr>)"
    by (simp add: no_version example_feature_ext_def example_ext_def example_feature_config_def
        BuildPackageConfig_of_control_file_def example_control_file_def example_source_def
        BinaryParagraph_of_source_def BinaryParagraph_of_feature_def package_dir_def dir_def
        path_append_def example_paths_def)
  then have written:
    "returned (build_package example_feature_ext example_paths example_feature_config
                 example_half_db example_world)
     = Some \<lparr>code = SUCCEEDED, unmet_dependencies = []\<rparr>"
    "map_of (disk (world_of (build_package example_feature_ext example_paths
                               example_feature_config example_half_db example_world)))
       ''r/packages/b_x64/CONTROL''
     = Some (File (''Package: b'' @ [CHR 0x0A] @ ''Package: b'' @ [CHR 0x0A]
                   @ ''Feature: docs''))"
    by (simp_all add: map_of_write_contents)
  from build_package_classification
    [OF example_unreadable_build_reached(1) example_unreadable_build_reached(2)
       B [OF reached(4)] X example_unreadable_build_reached(3)] rc(4) info4
  have unreadable:
    "case build_package example_plan_ext example_paths (example_config ''c'' [])
            example_half_db example_world of
       Exit e w' \<Rightarrow> e = Invalid_build_info_file
     | Return result w' \<Rightarrow> False"
    by simp
  from failed lint written unreadable show ?thesis
    by blast
qed

section \<open>Properties of the executor\<close>










end
